theory Spec2Isabelle
  imports Complex_Main
begin

section \<open>The values of the language\<close>

text \<open>
  The analysis pipeline is the edge function
  \<^verbatim>\<open>supabase/functions/analyze-repo/index.ts\<close>. It handles values that come out of
  \<^verbatim>\<open>JSON.parse\<close>, so the embedding starts with them.

  A number of the language is a double. Clamping only compares numbers, so a finite
  number is modelled by the rational it denotes (no rounding happens in the code that
  is modelled: \<^verbatim>\<open>Math.min\<close> and \<^verbatim>\<open>Math.max\<close> return one of their
  arguments), next to the two infinities and NaN. Both zeros are \<open>Fin 0\<close>.
\<close>

datatype jsnum = NaN | NegInf | Fin rat | PosInf

text \<open>
  A value as \<^verbatim>\<open>JSON.parse\<close> builds it. An array is an object too: besides its
  elements it can carry named properties (none after parsing), which is where an
  assignment \<^verbatim>\<open>a.vciScore = ...\<close> to an array lands. An object is the list of
  its own properties in insertion order. \<^verbatim>\<open>undefined\<close> is \<open>None\<close> of
  \<open>json option\<close>.
\<close>

datatype json =
    JNull
  | JBool bool
  | JNum jsnum
  | JStr string
  | JArr "json list" "(string \<times> json) list"
  | JObj "(string \<times> json) list"

text \<open>
  What the code can throw: a \<^verbatim>\<open>TypeError\<close> of the language (a property of
  \<^verbatim>\<open>null\<close> or \<^verbatim>\<open>undefined\<close>, a call of something that is no function, an
  assignment to a property of a primitive: the file is a module, hence strict), a
  \<^verbatim>\<open>SyntaxError\<close> of \<^verbatim>\<open>JSON.parse\<close>, an \<^verbatim>\<open>Error\<close> the code makes
  itself, the exception of a failed \<^verbatim>\<open>fetch\<close>, and the exception of the base64
  decoder.
\<close>

datatype exn = TypeError | SyntaxError | Error string | FetchFailed string | DecodeError

text \<open>Truthiness, as \<^verbatim>\<open>!x\<close>, \<^verbatim>\<open>x || y\<close>, \<^verbatim>\<open>x && y\<close> and \<^verbatim>\<open>if (x)\<close> read it.\<close>

fun truthy :: "json option \<Rightarrow> bool" where
  "truthy None = False"
| "truthy (Some JNull) = False"
| "truthy (Some (JBool b)) = b"
| "truthy (Some (JNum n)) = (case n of NaN \<Rightarrow> False | Fin q \<Rightarrow> q \<noteq> 0 | _ \<Rightarrow> True)"
| "truthy (Some (JStr s)) = (s \<noteq> [])"
| "truthy (Some (JArr xs ps)) = True"
| "truthy (Some (JObj ps)) = True"

text \<open>\<^verbatim>\<open>x || d\<close> with a default \<open>d\<close> that is a value.\<close>

definition or_default :: "json option \<Rightarrow> json \<Rightarrow> json option" where
  "or_default x d = (if truthy x then x else Some d)"

text \<open>
  Reading a property \<^verbatim>\<open>v.k\<close>. The code reads only the keys \<^verbatim>\<open>githubUrl\<close>,
  \<^verbatim>\<open>vciScore\<close>, \<^verbatim>\<open>confidence\<close>, \<^verbatim>\<open>content\<close>, \<^verbatim>\<open>encoding\<close>,
  \<^verbatim>\<open>choices\<close>, \<^verbatim>\<open>message\<close>, \<^verbatim>\<open>commit\<close>, \<^verbatim>\<open>author\<close>, \<^verbatim>\<open>name\<close>
  and \<^verbatim>\<open>date\<close>; none of them is a property of a prototype, so a primitive has
  none of them and an object has the ones it owns.
\<close>

fun get_prop :: "json option \<Rightarrow> string \<Rightarrow> exn + json option" where
  "get_prop None k = Inl TypeError"
| "get_prop (Some JNull) k = Inl TypeError"
| "get_prop (Some (JObj ps)) k = Inr (map_of ps k)"
| "get_prop (Some (JArr xs ps)) k = Inr (map_of ps k)"
| "get_prop (Some (JBool b)) k = Inr None"
| "get_prop (Some (JNum n)) k = Inr None"
| "get_prop (Some (JStr s)) k = Inr None"

text \<open>
  Assigning a property: an existing property keeps its place, a new one goes last.
  In strict code the assignment to a property of a primitive throws.
\<close>

fun assign :: "string \<Rightarrow> json \<Rightarrow> (string \<times> json) list \<Rightarrow> (string \<times> json) list" where
  "assign k v [] = [(k, v)]"
| "assign k v (p # ps) = (if fst p = k then (k, v) # ps else p # assign k v ps)"

fun set_prop :: "json \<Rightarrow> string \<Rightarrow> json \<Rightarrow> exn + json" where
  "set_prop (JObj ps) k v = Inr (JObj (assign k v ps))"
| "set_prop (JArr xs ps) k v = Inr (JArr xs (assign k v ps))"
| "set_prop JNull k v = Inl TypeError"
| "set_prop (JBool b) k v = Inl TypeError"
| "set_prop (JNum n) k v = Inl TypeError"
| "set_prop (JStr s) k v = Inl TypeError"

text \<open>
  \<^verbatim>\<open>Math.min\<close> and \<^verbatim>\<open>Math.max\<close> of two numbers: NaN if either is NaN.
\<close>

fun num_le :: "jsnum \<Rightarrow> jsnum \<Rightarrow> bool" where
  "num_le NaN b = False"
| "num_le a NaN = False"
| "num_le NegInf b = True"
| "num_le a PosInf = True"
| "num_le (Fin a) (Fin b) = (a \<le> b)"
| "num_le (Fin a) NegInf = False"
| "num_le PosInf b = False"

definition Math_min :: "jsnum \<Rightarrow> jsnum \<Rightarrow> jsnum" where
  "Math_min a b = (if a = NaN \<or> b = NaN then NaN else if num_le a b then a else b)"

definition Math_max :: "jsnum \<Rightarrow> jsnum \<Rightarrow> jsnum" where
  "Math_max a b = (if a = NaN \<or> b = NaN then NaN else if num_le a b then b else a)"

text \<open>
  The built-ins of the runtime that the code calls and that are not code of the
  repository are parameters of the model:
  \<^item> \<^verbatim>\<open>JSON.parse\<close> (\<open>None\<close>: it throws a \<^verbatim>\<open>SyntaxError\<close>);
  \<^item> the conversion of a string, an array or an object to a number, as the arguments
    of \<^verbatim>\<open>Math.min\<close> undergo it;
  \<^item> the conversion of a value that is no string to a string, as a template literal
    and \<^verbatim>\<open>JSON.parse\<close> apply it to their argument;
  \<^item> the base64 decoder of the standard library followed by \<^verbatim>\<open>TextDecoder\<close>
    (\<open>None\<close>: the decoder throws).
\<close>

record runtime =
  JSON_parse :: "string \<Rightarrow> json option"
  coerce_number :: "json \<Rightarrow> jsnum"
  coerce_string :: "json option \<Rightarrow> string"
  base64_text :: "string \<Rightarrow> string option"

fun ToNumber :: "runtime \<Rightarrow> json option \<Rightarrow> jsnum" where
  "ToNumber rt None = NaN"
| "ToNumber rt (Some JNull) = Fin 0"
| "ToNumber rt (Some (JBool b)) = Fin (if b then 1 else 0)"
| "ToNumber rt (Some (JNum n)) = n"
| "ToNumber rt (Some (JStr s)) = coerce_number rt (JStr s)"
| "ToNumber rt (Some (JArr xs ps)) = coerce_number rt (JArr xs ps)"
| "ToNumber rt (Some (JObj ps)) = coerce_number rt (JObj ps)"

fun ToString :: "runtime \<Rightarrow> json option \<Rightarrow> string" where
  "ToString rt (Some (JStr s)) = s"
| "ToString rt v = coerce_string rt v"

section \<open>The result interpreter\<close>

text \<open>
  Lines 252 to 273 of the handler:
  \<^verbatim>\<open>
    let analysisResult: AnalysisResponse
    try {
      analysisResult = JSON.parse(aiResponse)
    } catch (parseError) {
      analysisResult = { vciScore: 50, analysis: '...', confidence: 30,
        indicators: { codePatterns: [], commitPatterns: [], documentationPatterns: [] } }
    }
    analysisResult.vciScore = Math.max(0, Math.min(100, analysisResult.vciScore || 50))
    analysisResult.confidence = Math.max(0, Math.min(100, analysisResult.confidence || 50))
  \<close>
\<close>

definition fallback_analysis :: string where
  "fallback_analysis =
     ''Unable to perform detailed analysis. This appears to be a standard repository.''"

definition fallback_result :: json where
  "fallback_result = JObj
     [(''vciScore'', JNum (Fin 50)),
      (''analysis'', JStr fallback_analysis),
      (''confidence'', JNum (Fin 30)),
      (''indicators'', JObj
         [(''codePatterns'', JArr [] []),
          (''commitPatterns'', JArr [] []),
          (''documentationPatterns'', JArr [] [])])]"

text \<open>The \<^verbatim>\<open>try\<close>/\<^verbatim>\<open>catch\<close> around \<^verbatim>\<open>JSON.parse\<close>, from the outcome of the parse.\<close>

definition parse_or_fallback :: "json option \<Rightarrow> json" where
  "parse_or_fallback parsed = (case parsed of Some v \<Rightarrow> v | None \<Rightarrow> fallback_result)"

text \<open>\<^verbatim>\<open>Math.max(0, Math.min(100, x || 50))\<close>\<close>

definition clamp_score :: "runtime \<Rightarrow> json option \<Rightarrow> jsnum" where
  "clamp_score rt x =
     Math_max (Fin 0) (Math_min (Fin 100) (ToNumber rt (or_default x (JNum (Fin 50)))))"

text \<open>The two assignments of lines 272 and 273, in their order.\<close>

definition sanitize :: "runtime \<Rightarrow> json \<Rightarrow> exn + json" where
  "sanitize rt a =
     (case get_prop (Some a) ''vciScore'' of
        Inl e \<Rightarrow> Inl e
      | Inr s \<Rightarrow>
         (case set_prop a ''vciScore'' (JNum (clamp_score rt s)) of
            Inl e \<Rightarrow> Inl e
          | Inr a1 \<Rightarrow>
             (case get_prop (Some a1) ''confidence'' of
                Inl e \<Rightarrow> Inl e
              | Inr c \<Rightarrow> set_prop a1 ''confidence'' (JNum (clamp_score rt c)))))"

text \<open>
  The interpreter from the outcome of \<^verbatim>\<open>JSON.parse\<close> on the completion (\<open>None\<close>:
  the parse threw), and from the completion itself.
\<close>

definition interpret_parsed :: "runtime \<Rightarrow> json option \<Rightarrow> exn + json" where
  "interpret_parsed rt parsed = sanitize rt (parse_or_fallback parsed)"

definition interpret_completion :: "runtime \<Rightarrow> json \<Rightarrow> exn + json" where
  "interpret_completion rt aiResponse = interpret_parsed rt (JSON_parse rt (ToString rt (Some aiResponse)))"


text \<open>
  The shape of a result. \<open>in_range\<close>: a number from 0 to 100. \<open>coerced\<close>: a value
  that \<^verbatim>\<open>x || 50\<close> keeps and \<^verbatim>\<open>Math.min\<close> has to convert from a string, an
  array or an object. \<open>has_indicator_arrays\<close>: the three indicator fields are there
  and are arrays. \<open>valid_result\<close>: the shape of \<^verbatim>\<open>AnalysisResponse\<close> (lines 27 to
  36) with both numbers in range.
\<close>

fun in_range :: "jsnum \<Rightarrow> bool" where
  "in_range (Fin q) = (0 \<le> q \<and> q \<le> 100)"
| "in_range n = False"








section \<open>The retrying fetcher\<close>

text \<open>
  A request is what \<^verbatim>\<open>fetch(url, options)\<close> receives; the body of a request is kept
  as the value that \<^verbatim>\<open>JSON.stringify\<close> is applied to. A response is its status and
  its body text; \<^verbatim>\<open>response.ok\<close> is a status from 200 to 299.
\<close>

record request =
  url :: string
  http_method :: string
  headers :: "(string \<times> string) list"
  payload :: "json option"

record response =
  status :: int
  body :: string

definition ok :: "response \<Rightarrow> bool" where
  "ok r = (200 \<le> status r \<and> status r \<le> 299)"

text \<open>
  The world outside the function. \<open>fetch w req k\<close> is what the call number \<open>k\<close>
  (from 0) of \<^verbatim>\<open>fetch\<close> with the request \<open>req\<close> does: it resolves to a response
  or it rejects (a transport error, with its message). \<open>Math_random w req k\<close> is the
  draw of \<^verbatim>\<open>Math.random()\<close> after that call failed, a number from 0 (included)
  to 1 (excluded). \<open>env_get\<close> is \<^verbatim>\<open>Deno.env.get\<close>.
\<close>

datatype fetch_outcome = Responds response | Rejects string

record world =
  fetch :: "request \<Rightarrow> nat \<Rightarrow> fetch_outcome"
  Math_random :: "request \<Rightarrow> nat \<Rightarrow> rat"
  env_get :: "string \<Rightarrow> string option"

text \<open>
  What a run of the fetcher does, in order: the attempts (with the value of
  \<^verbatim>\<open>attempt\<close>) and the waits (the argument of \<^verbatim>\<open>setTimeout\<close>, in
  milliseconds).
\<close>

datatype event = Attempt int | Wait rat

text \<open>
  Lines 68 to 71 and 91 to 94:
  \<^verbatim>\<open>
    const delay = initialDelay * Math.pow(2, attempt);
    const jitter = Math.random() * 0.1 * delay;
    const totalDelay = delay + jitter;
  \<close>
  in exact arithmetic, \<open>u\<close> being the draw of \<^verbatim>\<open>Math.random()\<close>.
\<close>

definition backoff_delay :: "rat \<Rightarrow> int \<Rightarrow> rat" where
  "backoff_delay initialDelay attempt = initialDelay * 2 ^ nat attempt"

definition backoff_jitter :: "rat \<Rightarrow> int \<Rightarrow> rat \<Rightarrow> rat" where
  "backoff_jitter initialDelay attempt u = u * (1 / 10) * backoff_delay initialDelay attempt"

definition totalDelay :: "rat \<Rightarrow> int \<Rightarrow> rat \<Rightarrow> rat" where
  "totalDelay initialDelay attempt u =
     backoff_delay initialDelay attempt + backoff_jitter initialDelay attempt u"

text \<open>The events of an attempt that is retried come before those of the rest of the loop.\<close>

fun after :: "event list \<Rightarrow> (exn + response) \<times> event list \<Rightarrow> (exn + response) \<times> event list" where
  "after evs (r, tr) = (r, evs @ tr)"

text \<open>
  The loop of \<^verbatim>\<open>fetchWithExponentialBackoff\<close> (lines 52 to 104), from the value of
  \<^verbatim>\<open>attempt\<close> and of \<^verbatim>\<open>lastError\<close>. Its result is what the function returns
  (\<open>Inr\<close>) or throws (\<open>Inl\<close>), with the events of the run.
\<close>

function fetch_loop ::
  "world \<Rightarrow> request \<Rightarrow> int \<Rightarrow> rat \<Rightarrow> int \<Rightarrow> exn option \<Rightarrow> (exn + response) \<times> event list" where
  "fetch_loop w req maxRetries initialDelay attempt lastError =
     (if attempt \<le> maxRetries then
        (case fetch w req (nat attempt) of
           Responds r \<Rightarrow>
             if ok r \<or> (400 \<le> status r \<and> status r < 500 \<and> status r \<noteq> 429) then
               (Inr r, [Attempt attempt])
             else if status r = 429 \<or> 500 \<le> status r then
               (if attempt = maxRetries then (Inr r, [Attempt attempt])
                else
                  after
                    [Attempt attempt,
                     Wait (totalDelay initialDelay attempt (Math_random w req (nat attempt)))]
                    (fetch_loop w req maxRetries initialDelay (attempt + 1) lastError))
             else (Inr r, [Attempt attempt])
         | Rejects msg \<Rightarrow>
             if attempt = maxRetries then (Inl (FetchFailed msg), [Attempt attempt])
             else
               after
                 [Attempt attempt,
                  Wait (totalDelay initialDelay attempt (Math_random w req (nat attempt)))]
                 (fetch_loop w req maxRetries initialDelay (attempt + 1) (Some (FetchFailed msg))))
      else
        (Inl (case lastError of Some e \<Rightarrow> e | None \<Rightarrow> Error ''Max retries exceeded''), []))"
  by pat_completeness auto
termination
  by (relation "measure (\<lambda>(w, req, maxRetries, initialDelay, attempt, lastError).
        nat (maxRetries + 1 - attempt))") auto

declare fetch_loop.simps [simp del]

definition fetchWithExponentialBackoff ::
  "world \<Rightarrow> request \<Rightarrow> int \<Rightarrow> rat \<Rightarrow> (exn + response) \<times> event list" where
  "fetchWithExponentialBackoff w req maxRetries initialDelay =
     fetch_loop w req maxRetries initialDelay 0 None"

text \<open>The number of calls of \<^verbatim>\<open>fetch\<close> in a run, and its waits in order.\<close>

fun attempts :: "event list \<Rightarrow> nat" where
  "attempts [] = 0"
| "attempts (Attempt a # tr) = Suc (attempts tr)"
| "attempts (Wait t # tr) = attempts tr"

fun waits :: "event list \<Rightarrow> rat list" where
  "waits [] = []"
| "waits (Attempt a # tr) = waits tr"
| "waits (Wait t # tr) = t # waits tr"


section \<open>The locator parser\<close>

text \<open>
  \<^verbatim>\<open>parseGitHubUrl\<close> (lines 301 to 318) matches the regular expression
  \<^verbatim>\<open>/^https:\/\/github\.com\/([^\/]+)\/([^\/]+)\/?$/\<close>. Both groups are runs of
  characters other than the slash and a slash follows the first, so the match is
  unique: each group is the longest run. \<open>githubRegex\<close> returns the two groups.
\<close>

record GitHubRepo =
  owner :: string
  repo :: string

definition not_slash :: "char \<Rightarrow> bool" where
  "not_slash c = (c \<noteq> CHR ''/'')"

definition strip_prefix :: "string \<Rightarrow> string \<Rightarrow> string option" where
  "strip_prefix p s = (if take (length p) s = p then Some (drop (length p) s) else None)"

definition githubRegex :: "string \<Rightarrow> (string \<times> string) option" where
  "githubRegex u =
     (case strip_prefix ''https://github.com/'' u of
        None \<Rightarrow> None
      | Some rest \<Rightarrow>
         (if takeWhile not_slash rest = [] then None
          else
            (case dropWhile not_slash rest of
               [] \<Rightarrow> None
             | c # rest2 \<Rightarrow>
                (if takeWhile not_slash rest2 = [] then None
                 else if dropWhile not_slash rest2 = [] \<or> dropWhile not_slash rest2 = ''/''
                 then Some (takeWhile not_slash rest, takeWhile not_slash rest2)
                 else None))))"

text \<open>\<^verbatim>\<open>.replace(/\.git$/, '')\<close>\<close>

definition strip_git :: "string \<Rightarrow> string" where
  "strip_git s =
     (if 4 \<le> length s \<and> drop (length s - 4) s = ''.git'' then take (length s - 4) s else s)"

text \<open>
  The argument is whatever the request body holds under \<^verbatim>\<open>githubUrl\<close>. A value
  that is no string has no method \<^verbatim>\<open>match\<close>: the call throws, the
  \<^verbatim>\<open>catch\<close> of the function returns \<^verbatim>\<open>null\<close>.
\<close>

fun parseGitHubUrl :: "json \<Rightarrow> GitHubRepo option" where
  "parseGitHubUrl (JStr u) =
     (case githubRegex u of
        None \<Rightarrow> None
      | Some (g1, g2) \<Rightarrow> Some \<lparr>owner = g1, repo = strip_git g2\<rparr>)"
| "parseGitHubUrl v = None"

section \<open>The metadata gatherer\<close>

definition github_request :: "string \<Rightarrow> string \<Rightarrow> request" where
  "github_request u token =
     \<lparr>url = u, http_method = ''GET'',
      headers =
        [(''Authorization'', ''token '' @ token),
         (''User-Agent'', ''VibeCoded-App''),
         (''Accept'', ''application/vnd.github.v3+json'')],
      payload = None\<rparr>"

text \<open>\<^verbatim>\<open>await response.json()\<close>\<close>

definition response_json :: "runtime \<Rightarrow> response \<Rightarrow> exn + json" where
  "response_json rt r = (case JSON_parse rt (body r) of None \<Rightarrow> Inl SyntaxError | Some v \<Rightarrow> Inr v)"

text \<open>
  Lines 350 to 355 (and 391 to 396):
  \<^verbatim>\<open>
    if (data.content && data.encoding === 'base64') {
      const decodedBytes = decode(data.content.replace(/\n/g, ''))
      return new TextDecoder().decode(decodedBytes)
    }
    return null
  \<close>
\<close>

definition not_newline :: "char \<Rightarrow> bool" where
  "not_newline c = (c \<noteq> CHR 0x0A)"

definition decode_content :: "runtime \<Rightarrow> json \<Rightarrow> exn + string option" where
  "decode_content rt data =
     (case get_prop (Some data) ''content'' of
        Inl e \<Rightarrow> Inl e
      | Inr content \<Rightarrow>
         (if truthy content then
            (case get_prop (Some data) ''encoding'' of
               Inl e \<Rightarrow> Inl e
             | Inr encoding \<Rightarrow>
                (if encoding = Some (JStr ''base64'') then
                   (case content of
                      Some (JStr c) \<Rightarrow>
                        (case base64_text rt (filter not_newline c) of
                           None \<Rightarrow> Inl DecodeError
                         | Some t \<Rightarrow> Inr (Some t))
                    | _ \<Rightarrow> Inl TypeError)
                 else Inr None))
          else Inr None))"

text \<open>
  The body of the \<^verbatim>\<open>try\<close> of \<^verbatim>\<open>fetchGitHubFile\<close> and of
  \<^verbatim>\<open>fetchGitHubReadme\<close> after the fetch (lines 338 to 355, 379 to 396), from what
  the fetcher returned or threw.
\<close>

definition file_of_response :: "runtime \<Rightarrow> exn + response \<Rightarrow> exn + string option" where
  "file_of_response rt res =
     (case res of
        Inl e \<Rightarrow> Inl e
      | Inr r \<Rightarrow>
         (if status r = 404 then Inr None
          else if \<not> ok r then Inr None
          else (case response_json rt r of Inl e \<Rightarrow> Inl e | Inr data \<Rightarrow> decode_content rt data)))"

text \<open>\<^verbatim>\<open>catch (error) { ...; return null }\<close> and \<^verbatim>\<open>catch (error) { ...; return [] }\<close>\<close>

definition catch_return :: "'a \<Rightarrow> exn + 'a \<Rightarrow> exn + 'a" where
  "catch_return d r = (case r of Inl e \<Rightarrow> Inr d | Inr v \<Rightarrow> Inr v)"

definition file_request :: "string \<Rightarrow> string \<Rightarrow> string \<Rightarrow> string \<Rightarrow> request" where
  "file_request owner' repo' path' token =
     github_request
       (''https://api.github.com/repos/'' @ owner' @ ''/'' @ repo' @ ''/contents/'' @ path') token"

definition fetchGitHubFile ::
  "runtime \<Rightarrow> world \<Rightarrow> string \<Rightarrow> string \<Rightarrow> string \<Rightarrow> string \<Rightarrow> (exn + string option) \<times> event list" where
  "fetchGitHubFile rt w owner' repo' path' token =
     (case fetchWithExponentialBackoff w (file_request owner' repo' path' token) 2 500 of
        (res, tr) \<Rightarrow> (catch_return None (file_of_response rt res), tr))"

definition readme_request :: "string \<Rightarrow> string \<Rightarrow> string \<Rightarrow> request" where
  "readme_request owner' repo' token =
     github_request (''https://api.github.com/repos/'' @ owner' @ ''/'' @ repo' @ ''/readme'') token"

definition fetchGitHubReadme ::
  "runtime \<Rightarrow> world \<Rightarrow> string \<Rightarrow> string \<Rightarrow> string \<Rightarrow> (exn + string option) \<times> event list" where
  "fetchGitHubReadme rt w owner' repo' token =
     (case fetchWithExponentialBackoff w (readme_request owner' repo' token) 2 500 of
        (res, tr) \<Rightarrow> (catch_return None (file_of_response rt res), tr))"

text \<open>
  A commit as \<^verbatim>\<open>fetchGitHubCommits\<close> builds it (lines 427 to 431): each field is
  whatever value the response holds there, \<^verbatim>\<open>undefined\<close> included.
\<close>

record commit_info =
  message :: "json option"
  author :: "json option"
  date :: "json option"

definition commit_of :: "json \<Rightarrow> exn + commit_info" where
  "commit_of c =
     (case get_prop (Some c) ''commit'' of
        Inl e \<Rightarrow> Inl e
      | Inr cc \<Rightarrow>
         (case get_prop cc ''message'' of
            Inl e \<Rightarrow> Inl e
          | Inr m \<Rightarrow>
             (case get_prop cc ''author'' of
                Inl e \<Rightarrow> Inl e
              | Inr a \<Rightarrow>
                 (case get_prop a ''name'' of
                    Inl e \<Rightarrow> Inl e
                  | Inr n \<Rightarrow>
                     (case get_prop a ''date'' of
                        Inl e \<Rightarrow> Inl e
                      | Inr d \<Rightarrow> Inr \<lparr>message = m, author = n, date = d\<rparr>)))))"

fun map_throwing :: "('a \<Rightarrow> exn + 'b) \<Rightarrow> 'a list \<Rightarrow> exn + 'b list" where
  "map_throwing f [] = Inr []"
| "map_throwing f (x # xs) =
     (case f x of
        Inl e \<Rightarrow> Inl e
      | Inr y \<Rightarrow> (case map_throwing f xs of Inl e \<Rightarrow> Inl e | Inr ys \<Rightarrow> Inr (y # ys)))"

text \<open>\<^verbatim>\<open>commits.map(...)\<close>: only an array has the method.\<close>

fun commits_map :: "json \<Rightarrow> exn + commit_info list" where
  "commits_map (JArr xs ps) = map_throwing commit_of xs"
| "commits_map v = Inl TypeError"

definition commits_of_response :: "runtime \<Rightarrow> exn + response \<Rightarrow> exn + commit_info list" where
  "commits_of_response rt res =
     (case res of
        Inl e \<Rightarrow> Inl e
      | Inr r \<Rightarrow>
         (if \<not> ok r then Inr []
          else (case response_json rt r of Inl e \<Rightarrow> Inl e | Inr commits \<Rightarrow> commits_map commits)))"

definition commits_request :: "string \<Rightarrow> string \<Rightarrow> string \<Rightarrow> request" where
  "commits_request owner' repo' token =
     github_request
       (''https://api.github.com/repos/'' @ owner' @ ''/'' @ repo' @ ''/commits?per_page=20'') token"

definition fetchGitHubCommits ::
  "runtime \<Rightarrow> world \<Rightarrow> string \<Rightarrow> string \<Rightarrow> string \<Rightarrow> (exn + commit_info list) \<times> event list" where
  "fetchGitHubCommits rt w owner' repo' token =
     (case fetchWithExponentialBackoff w (commits_request owner' repo' token) 2 500 of
        (res, tr) \<Rightarrow> (catch_return [] (commits_of_response rt res), tr))"

section \<open>The prompt assembler\<close>

record file_info =
  name :: string
  content :: string
  path :: string

record repo_data =
  readme :: "string option"
  files :: "file_info list"
  commits :: "commit_info list"

text \<open>A number in a template literal: the decimal digits of a length.\<close>

fun show_nat :: "nat \<Rightarrow> string" where
  "show_nat n =
     (if n < 10 then [''0123456789'' ! n]
      else show_nat (n div 10) @ [''0123456789'' ! (n mod 10)])"

declare show_nat.simps [simp del]

definition rubric :: string where
  \<open>rubric =
     ''Based on the above repository data, analyze for AI assistance patterns:\<newline>'' @
     ''\<newline>'' @
     ''Code Patterns to look for:\<newline>'' @
     ''- Consistent formatting and style across all files\<newline>'' @
     ''- Perfect documentation coverage and formatting\<newline>'' @
     ''- Systematic error handling patterns\<newline>'' @
     ''- Generic variable names and function structures\<newline>'' @
     ''- Boilerplate-heavy code structure\<newline>'' @
     ''- Overly comprehensive type definitions\<newline>'' @
     ''- Perfect code organization\<newline>'' @
     ''\<newline>'' @
     ''Commit Patterns to analyze:\<newline>'' @
     ''- Templated or overly formal commit messages\<newline>'' @
     ''- Large, infrequent commits vs. small iterative ones\<newline>'' @
     ''- Perfect commit message formatting and grammar\<newline>'' @
     ''- Lack of "work in progress" or experimental commits\<newline>'' @
     ''- Commits that add complete features at once\<newline>'' @
     ''\<newline>'' @
     ''Documentation Patterns:\<newline>'' @
     ''- Overly comprehensive README with perfect formatting\<newline>'' @
     ''- Perfect grammar and professional language throughout\<newline>'' @
     ''- Generic project descriptions\<newline>'' @
     ''- Complete API documentation from the start\<newline>'' @
     ''- Lack of personal voice or informal language\<newline>'' @
     ''\<newline>'' @
     ''Provide a detailed JSON response with:\<newline>'' @
     ''- vciScore: 0-100 (likelihood of AI assistance)\<newline>'' @
     ''- analysis: Clear explanation of your assessment\<newline>'' @
     ''- confidence: How certain you are (0-100)\<newline>'' @
     ''- indicators: Specific patterns found in each category\<newline>'' @
     ''\<newline>'' @
     ''Be thorough but concise in your analysis.''\<close>

text \<open>
  \<^verbatim>\<open>createDetailedAnalysisPrompt\<close> (lines 438 to 502). The variable
  \<^verbatim>\<open>prompt\<close> is threaded through the four blocks; a \<^verbatim>\<open>forEach\<close> is a fold
  from the left.
\<close>

definition add_readme :: "string option \<Rightarrow> string \<Rightarrow> string" where
  "add_readme r prompt =
     (case r of
        None \<Rightarrow> prompt @ ''No README file found.\<newline>\<newline>''
      | Some t \<Rightarrow>
         (if t \<noteq> [] then
            prompt @ ''README Content (first 2000 chars):\<newline>'' @ take 2000 t @ ''\<newline>\<newline>''
          else prompt @ ''No README file found.\<newline>\<newline>''))"

definition add_file :: "string \<Rightarrow> file_info \<Rightarrow> string" where
  "add_file prompt f =
     prompt @ ''File: '' @ path f @ ''\<newline>'' @ take 1000 (content f) @ ''\<newline>\<newline>''"

definition add_files :: "file_info list \<Rightarrow> string \<Rightarrow> string" where
  "add_files fs prompt =
     (if 0 < length fs then
        foldl add_file (prompt @ ''Code Files Analysis:\<newline>'') (take 5 fs)
      else prompt @ ''No package.json or key files found.\<newline>\<newline>'')"

definition add_commit :: "runtime \<Rightarrow> string \<Rightarrow> commit_info \<Rightarrow> string" where
  \<open>add_commit rt prompt c =
     prompt @ ''- "'' @ ToString rt (message c) @ ''" by '' @ ToString rt (author c) @
       '' on '' @ ToString rt (date c) @ ''\<newline>''\<close>

definition add_commits :: "runtime \<Rightarrow> commit_info list \<Rightarrow> string \<Rightarrow> string" where
  "add_commits rt cs prompt =
     (if 0 < length cs then
        foldl (add_commit rt)
          (prompt @ ''Recent Commit Messages (last '' @ show_nat (length cs) @ '' commits):\<newline>'')
          (take 15 cs) @ ''\<newline>''
      else prompt @ ''No commit history available.\<newline>\<newline>'')"

definition createDetailedAnalysisPrompt :: "runtime \<Rightarrow> string \<Rightarrow> repo_data \<Rightarrow> string" where
  "createDetailedAnalysisPrompt rt githubUrl repoData =
     add_commits rt (commits repoData)
       (add_files (files repoData)
          (add_readme (readme repoData)
             (''Analyze this GitHub repository for AI development patterns: '' @ githubUrl @
              ''\<newline>\<newline>''))) @ rubric"


section \<open>The inference client and the handler\<close>

text \<open>The system message of the request (lines 189 to 224).\<close>

definition system_prompt :: string where
  \<open>system_prompt =
     ''You are an expert code analyst specializing in detecting AI-assisted development patterns. \<newline>'' @
     ''              You analyze repositories to determine the "Vibe Code Index" (VCI) - a score from 0-100 indicating how much AI assistance was likely used.\<newline>'' @
     ''\<newline>'' @
     ''              Scoring guidelines:\<newline>'' @
     ''              - 0-20: Clearly human-written code with personal style, inconsistencies, creative solutions\<newline>'' @
     ''              - 21-40: Mostly human with minimal AI assistance\<newline>'' @
     ''              - 41-60: Hybrid approach with moderate AI assistance\<newline>'' @
     ''              - 61-80: Heavy AI assistance with human oversight\<newline>'' @
     ''              - 81-100: Predominantly AI-generated with minimal human modification\<newline>'' @
     ''\<newline>'' @
     ''              Key indicators to look for:\<newline>'' @
     ''              \<newline>'' @
     ''              AI-Generated Patterns:\<newline>'' @
     ''              - Overly consistent code formatting\<newline>'' @
     ''              - Perfect documentation coverage\<newline>'' @
     ''              - Systematic error handling patterns\<newline>'' @
     ''              - Generic variable and function names\<newline>'' @
     ''              - Boilerplate-heavy structure\<newline>'' @
     ''              - Templated commit messages\<newline>'' @
     ''              - Large, infrequent commits\<newline>'' @
     ''              - Perfect grammar in documentation\<newline>'' @
     ''              \<newline>'' @
     ''              Human-Written Patterns:\<newline>'' @
     ''              - Inconsistent formatting styles\<newline>'' @
     ''              - Personal coding quirks\<newline>'' @
     ''              - Creative problem-solving approaches\<newline>'' @
     ''              - Organic code evolution\<newline>'' @
     ''              - Iterative development history\<newline>'' @
     ''              - Casual commit messages\<newline>'' @
     ''              - Frequent small commits\<newline>'' @
     ''\<newline>'' @
     ''              Respond with a JSON object containing:\<newline>'' @
     ''              - vciScore: number (0-100)\<newline>'' @
     ''              - analysis: string (2-3 sentences explaining the assessment)\<newline>'' @
     ''              - confidence: number (0-100, how confident you are in the assessment)\<newline>'' @
     ''              - indicators: object with arrays of specific patterns found (codePatterns, commitPatterns, documentationPatterns)''\<close>

text \<open>The request of lines 176 to 237.\<close>

definition openai_request :: "string \<Rightarrow> string \<Rightarrow> request" where
  "openai_request openaiApiKey analysisPrompt =
     \<lparr>url = ''https://api.openai.com/v1/chat/completions'',
      http_method = ''POST'',
      headers =
        [(''Authorization'', ''Bearer '' @ openaiApiKey),
         (''Content-Type'', ''application/json'')],
      payload = Some (JObj
        [(''model'', JStr ''gpt-3.5-turbo''),
         (''messages'', JArr
            [JObj [(''role'', JStr ''system''), (''content'', JStr system_prompt)],
             JObj [(''role'', JStr ''user''), (''content'', JStr analysisPrompt)]] []),
         (''temperature'', JNum (Fin (3 / 10))),
         (''max_tokens'', JNum (Fin 1000))])\<rparr>"

text \<open>
  \<^verbatim>\<open>openaiData.choices[0]?.message?.content\<close> (line 246). An element access
  \<^verbatim>\<open>v[0]\<close> throws on \<^verbatim>\<open>null\<close> and \<^verbatim>\<open>undefined\<close>; \<^verbatim>\<open>v?.k\<close> is
  \<^verbatim>\<open>undefined\<close> there, and so is the rest of the chain.
\<close>

fun element0 :: "json option \<Rightarrow> exn + json option" where
  "element0 None = Inl TypeError"
| "element0 (Some JNull) = Inl TypeError"
| "element0 (Some (JArr xs ps)) = Inr (case xs of [] \<Rightarrow> None | x # rest \<Rightarrow> Some x)"
| "element0 (Some (JObj ps)) = Inr (map_of ps ''0'')"
| "element0 (Some (JStr s)) = Inr (case s of [] \<Rightarrow> None | c # rest \<Rightarrow> Some (JStr [c]))"
| "element0 (Some (JBool b)) = Inr None"
| "element0 (Some (JNum n)) = Inr None"

definition nullish :: "json option \<Rightarrow> bool" where
  "nullish v = (v = None \<or> v = Some JNull)"

definition extract_completion :: "json \<Rightarrow> exn + json option" where
  "extract_completion openaiData =
     (case get_prop (Some openaiData) ''choices'' of
        Inl e \<Rightarrow> Inl e
      | Inr choices \<Rightarrow>
         (case element0 choices of
            Inl e \<Rightarrow> Inl e
          | Inr c0 \<Rightarrow>
             (if nullish c0 then Inr None
              else
                (case get_prop c0 ''message'' of
                   Inl e \<Rightarrow> Inl e
                 | Inr m \<Rightarrow> (if nullish m then Inr None else get_prop m ''content'')))))"

text \<open>
  What the handler answers. The body of a response is kept as the value that is
  serialised: the text \<^verbatim>\<open>ok\<close> of the preflight, an error object (its
  \<^verbatim>\<open>error\<close> field, and the exception whose message is its \<^verbatim>\<open>details\<close>), or
  the analysis result.
\<close>

datatype reply_body = PlainText string | ErrorJson string "exn option" | ResultJson json

record reply =
  code :: int
  reply_body :: reply_body

record http_request =
  req_method :: string
  req_body :: string

text \<open>A status in a template literal (line 242).\<close>

definition show_int :: "int \<Rightarrow> string" where
  "show_int i = (if i < 0 then ''-'' @ show_nat (nat (- i)) else show_nat (nat i))"

text \<open>
  Lines 239 to 282: from what the fetcher returned or threw for the inference request
  to the response of the handler, or to the exception that leaves the \<^verbatim>\<open>try\<close>.
\<close>

definition inference_stage :: "runtime \<Rightarrow> exn + response \<Rightarrow> exn + reply" where
  "inference_stage rt res =
     (case res of
        Inl e \<Rightarrow> Inl e
      | Inr openaiResponse \<Rightarrow>
         (if \<not> ok openaiResponse then
            Inl (Error (''OpenAI API error: '' @ show_int (status openaiResponse) @ '' - '' @
                        body openaiResponse))
          else
            (case response_json rt openaiResponse of
               Inl e \<Rightarrow> Inl e
             | Inr openaiData \<Rightarrow>
                (case extract_completion openaiData of
                   Inl e \<Rightarrow> Inl e
                 | Inr None \<Rightarrow> Inl (Error ''No response from OpenAI'')
                 | Inr (Some aiResponse) \<Rightarrow>
                    (if \<not> truthy (Some aiResponse) then Inl (Error ''No response from OpenAI'')
                     else
                       (case interpret_completion rt aiResponse of
                          Inl e \<Rightarrow> Inl e
                        | Inr analysisResult \<Rightarrow>
                           Inr \<lparr>code = 200, reply_body = ResultJson analysisResult\<rparr>))))))"

text \<open>
  The three fetches of \<^verbatim>\<open>Promise.all\<close> (lines 154 to 158) and the
  \<^verbatim>\<open>repoData\<close> of lines 161 to 169. Each fetch has its own request, hence its own
  outcomes in the world: the order in which the three run does not matter. The promise
  of \<^verbatim>\<open>Promise.all\<close> rejects if one of the three does.
\<close>

definition package_files :: "string option \<Rightarrow> file_info list" where
  "package_files packageJsonContent =
     (case packageJsonContent of
        None \<Rightarrow> []
      | Some c \<Rightarrow>
         (if c \<noteq> [] then [\<lparr>name = ''package.json'', content = c, path = ''package.json''\<rparr>]
          else []))"

definition gather :: "runtime \<Rightarrow> world \<Rightarrow> GitHubRepo \<Rightarrow> string \<Rightarrow> exn + repo_data" where
  "gather rt w repoInfo githubPat =
     (case fst (fetchGitHubReadme rt w (owner repoInfo) (repo repoInfo) githubPat) of
        Inl e \<Rightarrow> Inl e
      | Inr readmeContent \<Rightarrow>
         (case fst (fetchGitHubFile rt w (owner repoInfo) (repo repoInfo) ''package.json'' githubPat) of
            Inl e \<Rightarrow> Inl e
          | Inr packageJsonContent \<Rightarrow>
             (case fst (fetchGitHubCommits rt w (owner repoInfo) (repo repoInfo) githubPat) of
                Inl e \<Rightarrow> Inl e
              | Inr commitsData \<Rightarrow>
                 Inr \<lparr>readme = readmeContent, files = package_files packageJsonContent,
                      commits = commitsData\<rparr>)))"

text \<open>The calls of the fetcher that the gatherer makes, each with its request and events.\<close>

definition gather_calls ::
  "runtime \<Rightarrow> world \<Rightarrow> GitHubRepo \<Rightarrow> string \<Rightarrow> (request \<times> event list) list" where
  "gather_calls rt w repoInfo githubPat =
     [(readme_request (owner repoInfo) (repo repoInfo) githubPat,
       snd (fetchGitHubReadme rt w (owner repoInfo) (repo repoInfo) githubPat)),
      (file_request (owner repoInfo) (repo repoInfo) ''package.json'' githubPat,
       snd (fetchGitHubFile rt w (owner repoInfo) (repo repoInfo) ''package.json'' githubPat)),
      (commits_request (owner repoInfo) (repo repoInfo) githubPat,
       snd (fetchGitHubCommits rt w (owner repoInfo) (repo repoInfo) githubPat))]"

text \<open>
  Lines 151 to 282, once the locator is parsed: the result of the \<^verbatim>\<open>try\<close> block and
  the calls of the fetcher it made.
\<close>

definition analyse ::
  "runtime \<Rightarrow> world \<Rightarrow> string \<Rightarrow> string \<Rightarrow> string \<Rightarrow> GitHubRepo \<Rightarrow>
     (exn + reply) \<times> (request \<times> event list) list" where
  "analyse rt w openaiApiKey githubPat githubUrl repoInfo =
     (case gather rt w repoInfo githubPat of
        Inl e \<Rightarrow> (Inl e, gather_calls rt w repoInfo githubPat)
      | Inr repoData \<Rightarrow>
         (case fetchWithExponentialBackoff w
                 (openai_request openaiApiKey (createDetailedAnalysisPrompt rt githubUrl repoData))
                 3 1000 of
            (res, tr) \<Rightarrow>
              (inference_stage rt res,
               gather_calls rt w repoInfo githubPat @
                 [(openai_request openaiApiKey (createDetailedAnalysisPrompt rt githubUrl repoData),
                   tr)])))"

text \<open>
  Lines 114 to 149: the configuration, the request body and the locator.
  \<^verbatim>\<open>!x\<close> of an environment variable holds when it is not set or empty.
\<close>

definition bad_request :: "string \<Rightarrow> reply" where
  "bad_request msg = \<lparr>code = 400, reply_body = ErrorJson msg None\<rparr>"

definition try_block ::
  "runtime \<Rightarrow> world \<Rightarrow> http_request \<Rightarrow> (exn + reply) \<times> (request \<times> event list) list" where
  "try_block rt w req =
     (case env_get w ''OPENAI_API_KEY'' of
        None \<Rightarrow> (Inl (Error ''OpenAI API key not configured''), [])
      | Some openaiApiKey \<Rightarrow>
         (if openaiApiKey = [] then (Inl (Error ''OpenAI API key not configured''), [])
          else
            (case env_get w ''GITHUB_PAT'' of
               None \<Rightarrow> (Inl (Error ''GitHub PAT not configured''), [])
             | Some githubPat \<Rightarrow>
                (if githubPat = [] then (Inl (Error ''GitHub PAT not configured''), [])
                 else
                   (case JSON_parse rt (req_body req) of
                      None \<Rightarrow> (Inl SyntaxError, [])
                    | Some b \<Rightarrow>
                       (case get_prop (Some b) ''githubUrl'' of
                          Inl e \<Rightarrow> (Inl e, [])
                        | Inr None \<Rightarrow> (Inr (bad_request ''GitHub URL is required''), [])
                        | Inr (Some githubUrl) \<Rightarrow>
                           (if \<not> truthy (Some githubUrl) then
                              (Inr (bad_request ''GitHub URL is required''), [])
                            else
                              (case parseGitHubUrl githubUrl of
                                 None \<Rightarrow> (Inr (bad_request ''Invalid GitHub URL format''), [])
                               | Some repoInfo \<Rightarrow>
                                  analyse rt w openaiApiKey githubPat
                                    (ToString rt (Some githubUrl)) repoInfo))))))))"

text \<open>
  The handler (lines 107 to 298): the preflight, the \<^verbatim>\<open>try\<close> block, and the
  \<^verbatim>\<open>catch\<close> that turns every exception into a response with status 500.
\<close>

definition serve :: "runtime \<Rightarrow> world \<Rightarrow> http_request \<Rightarrow> reply \<times> (request \<times> event list) list" where
  "serve rt w req =
     (if req_method req = ''OPTIONS'' then (\<lparr>code = 200, reply_body = PlainText ''ok''\<rparr>, [])
      else
        (case try_block rt w req of
           (Inl e, calls) \<Rightarrow>
             (\<lparr>code = 500, reply_body = ErrorJson ''Internal server error'' (Some e)\<rparr>, calls)
         | (Inr r, calls) \<Rightarrow> (r, calls)))"

text \<open>Both credentials are set and not empty (lines 115 to 124).\<close>

definition configured :: "world \<Rightarrow> bool" where
  "configured w =
     (case env_get w ''OPENAI_API_KEY'' of
        None \<Rightarrow> False
      | Some k \<Rightarrow>
         k \<noteq> [] \<and> (case env_get w ''GITHUB_PAT'' of None \<Rightarrow> False | Some p \<Rightarrow> p \<noteq> []))"

text \<open>
  Outcomes of the stages, for the statements about the pipeline.
  \<open>failing out\<close>: an attempt that rejects or is answered with a status outside 200 to
  299. \<open>fetched_ok w q\<close>: the metadata fetch of the request \<open>q\<close> (budget 2, delay 500) ends
  with a response whose status is from 200 to 299. \<open>inference_failed w q\<close>: the fetcher,
  with the budget of the inference call (3, delay 1000), throws or returns a response
  that is not \<^verbatim>\<open>ok\<close>. \<open>completion_of rt w q\<close>: the completion that lines 239 to
  250 take out of the response to the inference request \<open>q\<close>, if they get that far.
\<close>

definition failing :: "fetch_outcome \<Rightarrow> bool" where
  "failing out = (case out of Responds r \<Rightarrow> \<not> ok r | Rejects msg \<Rightarrow> True)"

definition fetched_ok :: "world \<Rightarrow> request \<Rightarrow> bool" where
  "fetched_ok w q =
     (case fst (fetchWithExponentialBackoff w q 2 500) of Inl e \<Rightarrow> False | Inr r \<Rightarrow> ok r)"

definition inference_failed :: "world \<Rightarrow> request \<Rightarrow> bool" where
  "inference_failed w q =
     (case fst (fetchWithExponentialBackoff w q 3 1000) of Inl e \<Rightarrow> True | Inr r \<Rightarrow> \<not> ok r)"





section \<open>Runs of the fetcher\<close>

text \<open>
  The events of a run that starts at the attempt \<open>a\<close> and retries \<open>j\<close> times: every
  attempt but the last is followed by its wait.
\<close>

fun schedule :: "world \<Rightarrow> request \<Rightarrow> rat \<Rightarrow> int \<Rightarrow> nat \<Rightarrow> event list" where
  "schedule w req d a 0 = [Attempt a]"
| "schedule w req d a (Suc j) =
     Attempt a # Wait (totalDelay d a (Math_random w req (nat a))) # schedule w req d (a + 1) j"

text \<open>A response that the fetcher retries: status 429, or 500 and above.\<close>

definition retryable :: "fetch_outcome \<Rightarrow> bool" where
  "retryable out =
     (case out of Responds r \<Rightarrow> status r = 429 \<or> 500 \<le> status r | Rejects msg \<Rightarrow> True)"

text \<open>What the loop returns or throws when the attempt at the end of the budget fails.\<close>

definition last_outcome :: "fetch_outcome \<Rightarrow> exn + response" where
  "last_outcome out = (case out of Responds r \<Rightarrow> Inr r | Rejects msg \<Rightarrow> Inl (FetchFailed msg))"

section \<open>Example worlds\<close>

text \<open>
  A world in which every request is answered with the same status and an empty body,
  every draw of \<^verbatim>\<open>Math.random()\<close> is one half, and every environment variable is
  set.
\<close>

definition world_always :: "int \<Rightarrow> world" where
  "world_always s =
     \<lparr>fetch = (\<lambda>req k. Responds \<lparr>status = s, body = []\<rparr>),
      Math_random = (\<lambda>req k. 1 / 2),
      env_get = (\<lambda>v. Some ''secret'')\<rparr>"

section \<open>An example run\<close>

text \<open>
  The texts of an example: a request for \<^verbatim>\<open>https://github.com/acme/widgets\<close>, a
  request whose locator is no repository URL, a commit list with one commit, a
  completion of the inference service that is a well-formed result, and the response
  body that carries it. \<open>json_string\<close> writes a string without control characters as
  JSON text.
\<close>

definition json_string :: "string \<Rightarrow> string" where
  "json_string s =
     [CHR 0x22] @
     concat (map (\<lambda>c. if c = CHR 0x22 \<or> c = CHR 0x5C then [CHR 0x5C, c] else [c]) s) @
     [CHR 0x22]"

definition request_text :: string where
  \<open>request_text = ''{"githubUrl":"https://github.com/acme/widgets"}''\<close>

definition bad_request_text :: string where
  \<open>bad_request_text = ''{"githubUrl":"not-a-url"}''\<close>

definition commits_text :: string where
  \<open>commits_text =
     ''[{"commit":{"message":"first draft","author":{"name":"ann","date":"2025-06-01"}}}]''\<close>

definition completion_text :: string where
  \<open>completion_text =
     ''{"vciScore":72,"analysis":"Mostly generated.","confidence":65,'' @
     ''"indicators":{"codePatterns":["consistent formatting"],'' @
     ''"commitPatterns":[],"documentationPatterns":[]}}''\<close>

definition completion_value :: json where
  "completion_value = JObj
     [(''vciScore'', JNum (Fin 72)),
      (''analysis'', JStr ''Mostly generated.''),
      (''confidence'', JNum (Fin 65)),
      (''indicators'', JObj
         [(''codePatterns'', JArr [JStr ''consistent formatting''] []),
          (''commitPatterns'', JArr [] []),
          (''documentationPatterns'', JArr [] [])])]"

definition openai_text :: string where
  \<open>openai_text = ''{"choices":[{"message":{"content":'' @ json_string completion_text @ ''}}]}''\<close>

text \<open>
  A runtime for the example: its \<^verbatim>\<open>JSON.parse\<close> is tabulated on the texts above
  and throws on every other text; no value converts to a number, every value that is no
  string converts to the empty string, and the base64 decoder throws.
\<close>

definition example_parse :: "string \<Rightarrow> json option" where
  "example_parse s =
     (if s = request_text then
        Some (JObj [(''githubUrl'', JStr ''https://github.com/acme/widgets'')])
      else if s = bad_request_text then Some (JObj [(''githubUrl'', JStr ''not-a-url'')])
      else if s = commits_text then
        Some (JArr
          [JObj [(''commit'', JObj
             [(''message'', JStr ''first draft''),
              (''author'', JObj [(''name'', JStr ''ann''), (''date'', JStr ''2025-06-01'')])])]] [])
      else if s = completion_text then Some completion_value
      else if s = openai_text then
        Some (JObj [(''choices'', JArr
          [JObj [(''message'', JObj [(''content'', JStr completion_text)])]] [])])
      else None)"

definition example_runtime :: runtime where
  "example_runtime =
     \<lparr>JSON_parse = example_parse, coerce_number = (\<lambda>v. NaN), coerce_string = (\<lambda>v. []),
      base64_text = (\<lambda>s. None)\<rparr>"

text \<open>
  The world of the example: the hosting service has neither a README nor a
  \<^verbatim>\<open>package.json\<close> for the repository (status 404) and one commit; the inference
  service answers at once.
\<close>

definition example_world :: world where
  \<open>example_world =
     \<lparr>fetch = (\<lambda>req k.
        if url req = ''https://api.openai.com/v1/chat/completions'' then
          Responds \<lparr>status = 200, body = openai_text\<rparr>
        else if url req = ''https://api.github.com/repos/acme/widgets/commits?per_page=20'' then
          Responds \<lparr>status = 200, body = commits_text\<rparr>
        else Responds \<lparr>status = 404, body = ''{"message":"Not Found"}''\<rparr>),
      Math_random = (\<lambda>req k. 1 / 2),
      env_get = (\<lambda>v. Some ''secret'')\<rparr>\<close>

section \<open>Properties of the retrying fetcher\<close>

lemma fst_after: "fst (after evs p) = fst p" by (cases p) simp
lemma snd_after: "snd (after evs p) = evs @ snd p" by (cases p) simp

lemma retried_shift:
  assumes "retryable (fetch w req (nat a))"
    and "\<forall>k<j. retryable (fetch w req (nat (a + 1 + int k)))"
  shows "\<forall>k<Suc j. retryable (fetch w req (nat (a + int k)))"
proof (intro allI impI)
  fix k assume "k < Suc j"
  show "retryable (fetch w req (nat (a + int k)))"
  proof (cases k)
    case 0
    then show ?thesis using assms(1) by simp
  next
    case (Suc k')
    then have "k' < j" using \<open>k < Suc j\<close> by simp
    then have "retryable (fetch w req (nat (a + 1 + int k')))" using assms(2) by blast
    moreover have "a + 1 + int k' = a + int k" using Suc by simp
    ultimately show ?thesis by simp
  qed
qed

lemma fetch_loop_schedule:
  "attempt \<le> maxRetries \<Longrightarrow>
   \<exists>j. attempt + int j \<le> maxRetries \<and>
       snd (fetch_loop w req maxRetries initialDelay attempt lastError)
         = schedule w req initialDelay attempt j \<and>
       (\<forall>k<j. retryable (fetch w req (nat (attempt + int k))))"
proof (induction w req maxRetries initialDelay attempt lastError rule: fetch_loop.induct)
  case (1 w req maxRetries initialDelay attempt lastError)
  let ?P = "\<lambda>l j. attempt + int j \<le> maxRetries \<and>
       snd (fetch_loop w req maxRetries initialDelay attempt l)
         = schedule w req initialDelay attempt j \<and>
       (\<forall>k<j. retryable (fetch w req (nat (attempt + int k))))"
  show ?case
  proof (cases "fetch w req (nat attempt)")
    case (Responds r)
    show ?thesis
    proof (cases "ok r \<or> (400 \<le> status r \<and> status r < 500 \<and> status r \<noteq> 429)")
      case True
      with Responds 1(3) have "snd (fetch_loop w req maxRetries initialDelay attempt lastError) = schedule w req initialDelay attempt 0"
        by (subst fetch_loop.simps) simp
      with 1(3) have "?P lastError 0" by simp
      then show ?thesis by blast
    next
      case nonterm: False
      show ?thesis
      proof (cases "(status r = 429 \<or> 500 \<le> status r) \<and> attempt \<noteq> maxRetries")
        case True
        then have lt: "attempt + 1 \<le> maxRetries" using 1(3) by simp
        from 1(1)[OF 1(3) Responds nonterm _ _ lt] True
        obtain j where j: "attempt + 1 + int j \<le> maxRetries"
          "snd (fetch_loop w req maxRetries initialDelay (attempt + 1) lastError) = schedule w req initialDelay (attempt + 1) j"
          "\<forall>k<j. retryable (fetch w req (nat (attempt + 1 + int k)))"
          by auto
        have "snd (fetch_loop w req maxRetries initialDelay attempt lastError) = schedule w req initialDelay attempt (Suc j)"
          using Responds nonterm True 1(3) j(2)
          by (subst fetch_loop.simps) (simp add: snd_after)
        moreover have "retryable (fetch w req (nat attempt))"
          using Responds True by (simp add: retryable_def)
        then have "\<forall>k<Suc j. retryable (fetch w req (nat (attempt + int k)))"
          using j(3) by (rule retried_shift)
        ultimately have "?P lastError (Suc j)" using j(1) by simp
        then show ?thesis by blast
      next
        case False
        with Responds nonterm 1(3) have "snd (fetch_loop w req maxRetries initialDelay attempt lastError) = schedule w req initialDelay attempt 0"
          by (subst fetch_loop.simps) auto
        with 1(3) have "?P lastError 0" by simp
        then show ?thesis by blast
      qed
    qed
  next
    case (Rejects msg)
    show ?thesis
    proof (cases "attempt = maxRetries")
      case True
      with Rejects 1(3) have "snd (fetch_loop w req maxRetries initialDelay attempt lastError) = schedule w req initialDelay attempt 0"
        by (subst fetch_loop.simps) simp
      with 1(3) have "?P lastError 0" by simp
      then show ?thesis by blast
    next
      case False
      then have lt: "attempt + 1 \<le> maxRetries" using 1(3) by simp
      from 1(2)[OF 1(3) Rejects False lt]
      obtain j where j: "attempt + 1 + int j \<le> maxRetries"
          "snd (fetch_loop w req maxRetries initialDelay (attempt + 1) (Some (FetchFailed msg))) = schedule w req initialDelay (attempt + 1) j"
          "\<forall>k<j. retryable (fetch w req (nat (attempt + 1 + int k)))"
        by auto
      have "snd (fetch_loop w req maxRetries initialDelay attempt lastError) = schedule w req initialDelay attempt (Suc j)"
        using Rejects False 1(3) j(2)
        by (subst fetch_loop.simps) (simp add: snd_after)
      moreover have "retryable (fetch w req (nat attempt))"
        using Rejects by (simp add: retryable_def)
      then have "\<forall>k<Suc j. retryable (fetch w req (nat (attempt + int k)))"
        using j(3) by (rule retried_shift)
      ultimately have "?P lastError (Suc j)" using j(1) by simp
      then show ?thesis by blast
    qed
  qed
qed

lemma fetch_loop_exhausted:
  "0 \<le> attempt \<Longrightarrow> attempt \<le> maxRetries \<Longrightarrow>
   \<forall>k. attempt \<le> int k \<and> int k \<le> maxRetries \<longrightarrow> retryable (fetch w req k) \<Longrightarrow>
   fetch_loop w req maxRetries initialDelay attempt lastError =
     (last_outcome (fetch w req (nat maxRetries)),
      schedule w req initialDelay attempt (nat (maxRetries - attempt)))"
proof (induction w req maxRetries initialDelay attempt lastError rule: fetch_loop.induct)
  case (1 w req maxRetries initialDelay attempt lastError)
  have here: "retryable (fetch w req (nat attempt))" using 1(3,4,5) by simp
  show ?case
  proof (cases "attempt = maxRetries")
    case True
    then show ?thesis using here 1(3)
      by (subst fetch_loop.simps)
         (auto simp: retryable_def last_outcome_def ok_def split: fetch_outcome.splits)
  next
    case False
    then have lt: "attempt + 1 \<le> maxRetries" using 1(4) by simp
    have n: "nat (maxRetries - attempt) = Suc (nat (maxRetries - (attempt + 1)))" using lt by simp
    have all: "\<forall>k. attempt + 1 \<le> int k \<and> int k \<le> maxRetries \<longrightarrow> retryable (fetch w req k)"
      using 1(5) by simp
    show ?thesis
    proof (cases "fetch w req (nat attempt)")
      case (Responds r)
      then have st: "status r = 429 \<or> 500 \<le> status r" using here by (simp add: retryable_def)
      then have nonterm: "\<not> (ok r \<or> (400 \<le> status r \<and> status r < 500 \<and> status r \<noteq> 429))"
        by (auto simp: ok_def)
      have "fetch_loop w req maxRetries initialDelay (attempt + 1) lastError =
        (last_outcome (fetch w req (nat maxRetries)),
         schedule w req initialDelay (attempt + 1) (nat (maxRetries - (attempt + 1))))"
        using 1(1)[OF 1(4) Responds nonterm st False _ lt all] 1(3) by simp
      then show ?thesis using Responds nonterm st False 1(4)
        by (subst fetch_loop.simps) (simp add: n)
    next
      case (Rejects msg)
      have "fetch_loop w req maxRetries initialDelay (attempt + 1) (Some (FetchFailed msg)) =
        (last_outcome (fetch w req (nat maxRetries)),
         schedule w req initialDelay (attempt + 1) (nat (maxRetries - (attempt + 1))))"
        using 1(2)[OF 1(4) Rejects False _ lt all] 1(3) by simp
      then show ?thesis using Rejects False 1(4)
        by (subst fetch_loop.simps) (simp add: n)
    qed
  qed
qed

lemma fetch_loop_past_end:
  "\<not> attempt \<le> maxRetries \<Longrightarrow>
   snd (fetch_loop w req maxRetries initialDelay attempt lastError) = []"
  by (subst fetch_loop.simps) simp

lemma attempts_schedule: "attempts (schedule w req d a j) = Suc j"
  by (induction j arbitrary: a) simp_all

lemma waits_schedule:
  "waits (schedule w req d a j) =
     map (\<lambda>k. totalDelay d (a + int k) (Math_random w req (nat (a + int k)))) [0..<j]"
proof (induction j arbitrary: a)
  case 0
  show ?case by simp
next
  case (Suc j)
  have "map (\<lambda>k. totalDelay d (a + int k) (Math_random w req (nat (a + int k)))) [0..<Suc j]
      = totalDelay d a (Math_random w req (nat a)) #
        map (\<lambda>k. totalDelay d (a + 1 + int k) (Math_random w req (nat (a + 1 + int k)))) [0..<j]"
    by (simp add: upt_conv_Cons map_Suc_upt[symmetric] algebra_simps del: upt_Suc)
  then show ?case using Suc[of "a + 1"] by simp
qed

lemma schedule_nth_wait:
  "k < j \<Longrightarrow> schedule w req d a j ! (2 * k + 1) =
       Wait (totalDelay d (a + int k) (Math_random w req (nat (a + int k))))"
proof (induction k arbitrary: a j)
  case 0
  then show ?case by (cases j) simp_all
next
  case (Suc k)
  then obtain j' where j: "j = Suc j'" "k < j'" by (cases j) auto
  have "schedule w req d a j ! (2 * Suc k + 1) = schedule w req d (a + 1) j' ! (2 * k + 1)"
    using j by simp
  also have "\<dots> = Wait (totalDelay d (a + 1 + int k) (Math_random w req (nat (a + 1 + int k))))"
    by (rule Suc.IH[OF j(2)])
  finally show ?case by (simp add: algebra_simps)
qed

lemma schedule_nth_attempt:
  "k \<le> j \<Longrightarrow> schedule w req d a j ! (2 * k) = Attempt (a + int k)"
proof (induction k arbitrary: a j)
  case 0
  then show ?case by (cases j) simp_all
next
  case (Suc k)
  then obtain j' where j: "j = Suc j'" "k \<le> j'" by (cases j) auto
  have "schedule w req d a j ! (2 * Suc k) = schedule w req d (a + 1) j' ! (2 * k)"
    using j by simp
  also have "\<dots> = Attempt (a + 1 + int k)"
    by (rule Suc.IH[OF j(2)])
  finally show ?case by (simp add: algebra_simps)
qed

lemma totalDelay_lower: "0 \<le> d \<Longrightarrow> 0 \<le> u \<Longrightarrow> backoff_delay d a \<le> totalDelay d a u"
  by (simp add: totalDelay_def backoff_jitter_def backoff_delay_def)

lemma totalDelay_upper:
  assumes "0 < d" "u < 1"
  shows "totalDelay d a u < 2 * backoff_delay d a"
proof -
  have pos: "0 < backoff_delay d a" using assms(1) by (simp add: backoff_delay_def)
  have "u * (1 / 10) < 1" using assms(2) by simp
  then have "u * (1 / 10) * backoff_delay d a < 1 * backoff_delay d a"
    using pos by (rule mult_strict_right_mono)
  then show ?thesis by (simp add: totalDelay_def backoff_jitter_def)
qed

lemma backoff_delay_mono:
  assumes "0 < d" "0 \<le> a" "a < b"
  shows "2 * backoff_delay d a \<le> backoff_delay d b"
proof -
  have "Suc (nat a) \<le> nat b" using assms by simp
  then have "(2::rat) ^ Suc (nat a) \<le> 2 ^ nat b" by (rule power_increasing) simp
  then have "d * 2 ^ Suc (nat a) \<le> d * 2 ^ nat b" using assms(1) by simp
  then show ?thesis by (simp add: backoff_delay_def mult.assoc mult.left_commute)
qed

lemma totalDelay_increasing:
  assumes "0 < d" "0 \<le> a" "a < b" "u < 1" "0 \<le> u'"
  shows "totalDelay d a u < totalDelay d b u'"
proof -
  have "totalDelay d a u < 2 * backoff_delay d a" using assms by (intro totalDelay_upper)
  also have "\<dots> \<le> backoff_delay d b" using assms by (intro backoff_delay_mono)
  also have "\<dots> \<le> totalDelay d b u'" using assms by (intro totalDelay_lower) simp_all
  finally show ?thesis .
qed

lemma waits_schedule_increasing:
  assumes "0 < d" "0 \<le> a" "\<forall>k. 0 \<le> Math_random w req k \<and> Math_random w req k < 1"
  shows "sorted_wrt (<) (waits (schedule w req d a j))"
proof -
  have "sorted_wrt (\<lambda>x y. totalDelay d (a + int x) (Math_random w req (nat (a + int x)))
                          < totalDelay d (a + int y) (Math_random w req (nat (a + int y)))) [0..<j]"
  proof (rule sorted_wrt_mono_rel[of _ "(<)"])
    fix x y assume "x \<in> set [0..<j]" "y \<in> set [0..<j]" "x < y"
    then show "totalDelay d (a + int x) (Math_random w req (nat (a + int x)))
                          < totalDelay d (a + int y) (Math_random w req (nat (a + int y)))"
      using assms by (intro totalDelay_increasing) simp_all
  qed simp
  then show ?thesis by (simp add: waits_schedule sorted_wrt_map)
qed

text \<open>
  Claim C4. Whatever the request and the retry budget \<open>m\<close>, a run of the fetcher calls
  \<^verbatim>\<open>fetch\<close> at most \<open>m + 1\<close> times. When every attempt is answered with status
  503 and the budget is 3, the run makes exactly 4 attempts with 3 waits between them and
  returns the response of the last attempt. When the initial delay is positive and the
  draws of \<^verbatim>\<open>Math.random()\<close> lie in [0, 1), each wait of a run is strictly longer
  than the one before.
\<close>

theorem retry_attempts_bounded:
  "attempts (snd (fetchWithExponentialBackoff w req m d)) \<le> nat (m + 1) \<and>
   ((\<forall>k. \<exists>r. fetch w req k = Responds r \<and> status r = 503) \<longrightarrow>
      attempts (snd (fetchWithExponentialBackoff w req 3 d)) = 4 \<and>
      length (waits (snd (fetchWithExponentialBackoff w req 3 d))) = 3 \<and>
      (\<exists>r. fetch w req 3 = Responds r \<and> fst (fetchWithExponentialBackoff w req 3 d) = Inr r)) \<and>
   (0 < d \<and> (\<forall>k. 0 \<le> Math_random w req k \<and> Math_random w req k < 1) \<longrightarrow>
      sorted_wrt (<) (waits (snd (fetchWithExponentialBackoff w req m d))))"
proof (intro conjI impI)
  show "attempts (snd (fetchWithExponentialBackoff w req m d)) \<le> nat (m + 1)"
  proof (cases "0 \<le> m")
    case True
    then obtain j where "0 + int j \<le> m"
      "snd (fetch_loop w req m d 0 None) = schedule w req d 0 j"
      using fetch_loop_schedule[of 0 m w req d None] by blast
    then show ?thesis by (simp add: fetchWithExponentialBackoff_def attempts_schedule)
  next
    case False
    then show ?thesis by (simp add: fetchWithExponentialBackoff_def fetch_loop_past_end)
  qed
next
  assume all: "\<forall>k. \<exists>r. fetch w req k = Responds r \<and> status r = 503"
  have "retryable (fetch w req k)" for k
  proof -
    from all obtain r where "fetch w req k = Responds r" "status r = 503" by blast
    then show ?thesis by (simp add: retryable_def)
  qed
  then have run: "fetchWithExponentialBackoff w req 3 d =
      (last_outcome (fetch w req 3), schedule w req d 0 3)"
    using fetch_loop_exhausted[of 0 3 w req d None] by (simp add: fetchWithExponentialBackoff_def)
  show "attempts (snd (fetchWithExponentialBackoff w req 3 d)) = 4"
    by (simp add: run attempts_schedule)
  show "length (waits (snd (fetchWithExponentialBackoff w req 3 d))) = 3"
    by (simp add: run waits_schedule)
  from all obtain r where "fetch w req 3 = Responds r" by blast
  then show "\<exists>r. fetch w req 3 = Responds r \<and> fst (fetchWithExponentialBackoff w req 3 d) = Inr r"
    by (simp add: run last_outcome_def)
next
  assume h: "0 < d \<and> (\<forall>k. 0 \<le> Math_random w req k \<and> Math_random w req k < 1)"
  show "sorted_wrt (<) (waits (snd (fetchWithExponentialBackoff w req m d)))"
  proof (cases "0 \<le> m")
    case True
    then obtain j where "snd (fetch_loop w req m d 0 None) = schedule w req d 0 j"
      using fetch_loop_schedule[of 0 m w req d None] by blast
    then show ?thesis using h waits_schedule_increasing[of d 0 w req j]
      by (simp add: fetchWithExponentialBackoff_def)
  next
    case False
    then show ?thesis by (simp add: fetchWithExponentialBackoff_def fetch_loop_past_end)
  qed
qed

theorem retry_attempts_bounded_witness:
  "attempts (snd (fetchWithExponentialBackoff (world_always 503) (github_request ''u'' ''t'') 3 1000)) = 4 \<and>
   fst (fetchWithExponentialBackoff (world_always 503) (github_request ''u'' ''t'') 3 1000)
     = Inr \<lparr>status = 503, body = []\<rparr> \<and>
   sorted_wrt (<) (waits (snd (fetchWithExponentialBackoff (world_always 503) (github_request ''u'' ''t'') 3 1000)))"
  using retry_attempts_bounded[of "world_always 503" "github_request ''u'' ''t''" 3 1000]
  by (simp add: world_always_def)








text \<open>
  Claim C10. For every \<open>n\<close> from 1 on such that the run reaches the attempt \<open>n\<close>
  (attempts are counted from 0): the attempt \<open>n - 1\<close> failed in a way that is retried,
  and between it and the attempt \<open>n\<close> the run waits
  \<open>initialDelay * 2 ^ (n - 1)\<close> plus the jitter, which is the draw of
  \<^verbatim>\<open>Math.random()\<close> times a tenth of that delay: with a draw in [0, 1) the jitter
  is at least 0 and at most a tenth of the delay.
\<close>

theorem backoff_delay_formula:
  "1 \<le> n \<Longrightarrow> n < attempts (snd (fetchWithExponentialBackoff w req m d)) \<Longrightarrow>
   retryable (fetch w req (n - 1)) \<and>
   snd (fetchWithExponentialBackoff w req m d) ! (2 * n - 2) = Attempt (int n - 1) \<and>
   snd (fetchWithExponentialBackoff w req m d) ! (2 * n - 1) =
     Wait (d * 2 ^ (n - 1) + Math_random w req (n - 1) * (1 / 10) * (d * 2 ^ (n - 1))) \<and>
   snd (fetchWithExponentialBackoff w req m d) ! (2 * n) = Attempt (int n) \<and>
   (0 \<le> d \<and> 0 \<le> Math_random w req (n - 1) \<and> Math_random w req (n - 1) < 1 \<longrightarrow>
      0 \<le> Math_random w req (n - 1) * (1 / 10) * (d * 2 ^ (n - 1)) \<and>
      Math_random w req (n - 1) * (1 / 10) * (d * 2 ^ (n - 1)) \<le> (1 / 10) * (d * 2 ^ (n - 1)))"
proof -
  assume n: "1 \<le> n" and att: "n < attempts (snd (fetchWithExponentialBackoff w req m d))"
  let ?tr = "snd (fetchWithExponentialBackoff w req m d)"
  have m: "0 \<le> m"
  proof (rule ccontr)
    assume "\<not> 0 \<le> m"
    then have "?tr = []" by (simp add: fetchWithExponentialBackoff_def fetch_loop_past_end)
    with att show False by simp
  qed
  then obtain j where j: "?tr = schedule w req d 0 j"
      "\<forall>k<j. retryable (fetch w req (nat (0 + int k)))"
    using fetch_loop_schedule[of 0 m w req d None] by (auto simp: fetchWithExponentialBackoff_def)
  from att have nj: "n \<le> j" by (simp add: j(1) attempts_schedule)
  from n obtain k where k: "n = Suc k" by (cases n) auto
  have kj: "k < j" using nj k by simp
  have 1: "retryable (fetch w req (n - 1))" using j(2) kj k by simp
  have 2: "?tr ! (2 * n - 2) = Attempt (int n - 1)"
    using schedule_nth_attempt[of k j w req d 0] kj k by (simp add: j(1))
  have 3: "?tr ! (2 * n - 1) =
     Wait (d * 2 ^ (n - 1) + Math_random w req (n - 1) * (1 / 10) * (d * 2 ^ (n - 1)))"
    using schedule_nth_wait[of k j w req d 0] kj k
    by (simp add: j(1) totalDelay_def backoff_jitter_def backoff_delay_def)
  have 4: "?tr ! (2 * n) = Attempt (int n)"
    using schedule_nth_attempt[of n j w req d 0] nj by (simp add: j(1))
  have 5: "0 \<le> d \<and> 0 \<le> Math_random w req (n - 1) \<and> Math_random w req (n - 1) < 1 \<longrightarrow>
      0 \<le> Math_random w req (n - 1) * (1 / 10) * (d * 2 ^ (n - 1)) \<and>
      Math_random w req (n - 1) * (1 / 10) * (d * 2 ^ (n - 1)) \<le> (1 / 10) * (d * 2 ^ (n - 1))"
  proof
    assume h: "0 \<le> d \<and> 0 \<le> Math_random w req (n - 1) \<and> Math_random w req (n - 1) < 1"
    let ?u = "Math_random w req (n - 1)" and ?D = "d * 2 ^ (n - 1)"
    have D: "0 \<le> ?D" using h by simp
    have "?u * (1 / 10) \<le> 1 / 10" using h by simp
    then have "?u * (1 / 10) * ?D \<le> (1 / 10) * ?D" using D by (rule mult_right_mono)
    moreover have "0 \<le> ?u * (1 / 10) * ?D" using h D by simp
    ultimately show "0 \<le> ?u * (1 / 10) * ?D \<and> ?u * (1 / 10) * ?D \<le> (1 / 10) * ?D" by simp
  qed
  from 1 2 3 4 5 show ?thesis by blast
qed

theorem backoff_delay_formula_witness:
  "snd (fetchWithExponentialBackoff (world_always 503) (github_request ''u'' ''t'') 3 1000) ! 3
     = Wait 2100 \<and>
   snd (fetchWithExponentialBackoff (world_always 503) (github_request ''u'' ''t'') 3 1000) ! 4
     = Attempt 2"
proof -
  have run: "snd (fetchWithExponentialBackoff (world_always 503) (github_request ''u'' ''t'') 3 1000)
     = [Attempt 0, Wait 1050, Attempt 1, Wait 2100, Attempt 2, Wait 4200, Attempt 3]"
    by (simp add: fetchWithExponentialBackoff_def fetch_loop.simps world_always_def ok_def
        totalDelay_def backoff_jitter_def backoff_delay_def)
  have "(1::nat) \<le> 2" by simp
  moreover have "2 < attempts (snd (fetchWithExponentialBackoff (world_always 503) (github_request ''u'' ''t'') 3 1000))"
    by (simp add: run)
  ultimately show ?thesis
    using backoff_delay_formula[of 2 "world_always 503" "github_request ''u'' ''t''" 3 1000]
    by (simp add: world_always_def)
qed

section \<open>Properties of the result interpreter\<close>

lemma clamp_cases:
  "Math_max (Fin 0) (Math_min (Fin 100) n) =
     (case n of NaN \<Rightarrow> NaN | NegInf \<Rightarrow> Fin 0 | PosInf \<Rightarrow> Fin 100
      | Fin q \<Rightarrow> Fin (max 0 (min 100 q)))"
  by (cases n) (auto simp: Math_max_def Math_min_def)

lemma clamp_nan_or_in_range:
  "Math_max (Fin 0) (Math_min (Fin 100) n) = NaN \<or> in_range (Math_max (Fin 0) (Math_min (Fin 100) n))"
  by (cases n) (auto simp: clamp_cases)


lemma clamp_score_range: "clamp_score rt x = NaN \<or> in_range (clamp_score rt x)"
  unfolding clamp_score_def by (rule clamp_nan_or_in_range)

lemma clamp_score_falsy: "\<not> truthy x \<Longrightarrow> clamp_score rt x = Fin 50"
  by (simp add: clamp_score_def or_default_def clamp_cases)


lemma clamp_score_number:
  "clamp_score rt (Some (JNum (Fin q))) = Fin (if q = 0 then 50 else max 0 (min 100 q))"
  by (simp add: clamp_score_def or_default_def clamp_cases)

lemma map_of_assign: "map_of (assign k v ps) k' = (if k' = k then Some v else map_of ps k')"
  by (induction ps) auto

lemma assign_absent: "map_of ps k = None \<Longrightarrow> assign k v ps = ps @ [(k, v)]"
  by (induction ps) (auto split: if_splits)

lemma sanitize_JObj:
  "sanitize rt (JObj ps) =
     Inr (JObj (assign ''confidence'' (JNum (clamp_score rt (map_of ps ''confidence'')))
                 (assign ''vciScore'' (JNum (clamp_score rt (map_of ps ''vciScore''))) ps)))"
  by (simp add: sanitize_def map_of_assign)


lemma sanitize_primitive:
  "sanitize rt JNull = Inl TypeError" "sanitize rt (JBool b) = Inl TypeError"
  "sanitize rt (JNum n) = Inl TypeError" "sanitize rt (JStr s) = Inl TypeError"
  by (simp_all add: sanitize_def)

lemma sanitize_fallback: "sanitize rt fallback_result = Inr fallback_result"
  by (simp add: fallback_result_def sanitize_JObj clamp_score_number)


lemma interpret_parsed_None: "interpret_parsed rt None = Inr fallback_result"
  by (simp add: interpret_parsed_def parse_or_fallback_def sanitize_fallback)


text \<open>
  A completion that parses to \<^verbatim>\<open>null\<close> or to another primitive makes the
  interpreter throw: the handler catches the exception and answers with status 500.
\<close>

lemma interpret_parsed_primitive:
  "interpret_parsed rt (Some JNull) = Inl TypeError"
  "interpret_parsed rt (Some (JBool b)) = Inl TypeError"
  "interpret_parsed rt (Some (JNum n)) = Inl TypeError"
  "interpret_parsed rt (Some (JStr s)) = Inl TypeError"
  by (simp_all add: interpret_parsed_def parse_or_fallback_def sanitize_primitive)




text \<open>
  Claim C2, as the code has it. A completion that does not parse gives exactly the
  fallback result: score 50, confidence 30, the generic sentence, three empty indicator
  lists. A completion that parses to an object without \<^verbatim>\<open>vciScore\<close> and
  \<^verbatim>\<open>confidence\<close> keeps its properties and gets both fields, each 50.
\<close>

theorem interpret_fallback:
  "interpret_parsed rt None = Inr fallback_result \<and>
   get_prop (Some fallback_result) ''vciScore'' = Inr (Some (JNum (Fin 50))) \<and>
   get_prop (Some fallback_result) ''confidence'' = Inr (Some (JNum (Fin 30))) \<and>
   get_prop (Some fallback_result) ''analysis'' = Inr (Some (JStr fallback_analysis)) \<and>
   fallback_analysis \<noteq> [] \<and>
   get_prop (Some fallback_result) ''indicators'' =
     Inr (Some (JObj [(''codePatterns'', JArr [] []), (''commitPatterns'', JArr [] []),
                      (''documentationPatterns'', JArr [] [])])) \<and>
   (map_of ps ''vciScore'' = None \<and> map_of ps ''confidence'' = None \<longrightarrow>
      interpret_parsed rt (Some (JObj ps)) =
        Inr (JObj (ps @ [(''vciScore'', JNum (Fin 50)), (''confidence'', JNum (Fin 50))])))"
proof (intro conjI impI)
  show "interpret_parsed rt None = Inr fallback_result" by (rule interpret_parsed_None)
  show "fallback_analysis \<noteq> []" by (simp add: fallback_analysis_def)
next
  assume h: "map_of ps ''vciScore'' = None \<and> map_of ps ''confidence'' = None"
  then have 1: "assign ''vciScore'' (JNum (Fin 50)) ps = ps @ [(''vciScore'', JNum (Fin 50))]"
    by (simp add: assign_absent)
  have "map_of (ps @ [(''vciScore'', JNum (Fin 50))]) ''confidence'' = None"
    using h by (simp add: map_add_def)
  then have 2: "assign ''confidence'' (JNum (Fin 50)) (ps @ [(''vciScore'', JNum (Fin 50))])
      = (ps @ [(''vciScore'', JNum (Fin 50))]) @ [(''confidence'', JNum (Fin 50))]"
    by (rule assign_absent)
  show "interpret_parsed rt (Some (JObj ps)) =
        Inr (JObj (ps @ [(''vciScore'', JNum (Fin 50)), (''confidence'', JNum (Fin 50))]))"
    using h by (simp add: interpret_parsed_def parse_or_fallback_def sanitize_JObj
        clamp_score_falsy 1 2)
qed (simp_all add: fallback_result_def)

theorem interpret_fallback_witness:
  "interpret_parsed example_runtime (Some (JObj [(''analysis'', JStr ''ok'')])) =
     Inr (JObj [(''analysis'', JStr ''ok''), (''vciScore'', JNum (Fin 50)),
                (''confidence'', JNum (Fin 50))])"
  using interpret_fallback[of example_runtime "[(''analysis'', JStr ''ok'')]"] by simp

theorem interpret_fallback_counterexample:
  "interpret_parsed example_runtime (Some (JObj [(''analysis'', JStr ''ok'')])) =
     Inr (JObj [(''analysis'', JStr ''ok''), (''vciScore'', JNum (Fin 50)),
                (''confidence'', JNum (Fin 50))]) \<and>
   interpret_parsed example_runtime (Some (JObj [(''analysis'', JStr ''ok'')])) \<noteq> Inr fallback_result"
  by (simp add: interpret_parsed_def parse_or_fallback_def sanitize_JObj clamp_score_falsy
      fallback_result_def)



section \<open>Properties of the locator parser\<close>

lemma strip_prefix_iff: "strip_prefix p s = Some r \<longleftrightarrow> s = p @ r"
proof
  assume "strip_prefix p s = Some r"
  then have "take (length p) s = p" "r = drop (length p) s"
    by (auto simp: strip_prefix_def split: if_splits)
  then show "s = p @ r" by (metis append_take_drop_id)
next
  assume "s = p @ r"
  then show "strip_prefix p s = Some r" by (simp add: strip_prefix_def)
qed

lemma run_then_slash:
  assumes "CHR ''/'' \<notin> set g"
  shows "takeWhile not_slash (g @ CHR ''/'' # t) = g"
    and "dropWhile not_slash (g @ CHR ''/'' # t) = CHR ''/'' # t"
proof -
  have all: "\<forall>c\<in>set g. not_slash c" using assms by (auto simp: not_slash_def)
  show "takeWhile not_slash (g @ CHR ''/'' # t) = g"
    using all by (simp add: takeWhile_append2 not_slash_def)
  show "dropWhile not_slash (g @ CHR ''/'' # t) = CHR ''/'' # t"
    using all by (simp add: dropWhile_append2 not_slash_def)
qed

lemma run_to_end:
  assumes "CHR ''/'' \<notin> set g"
  shows "takeWhile not_slash g = g" and "dropWhile not_slash g = []"
  using assms by (auto simp: not_slash_def takeWhile_eq_all_conv)

lemma split_run:
  "xs = takeWhile not_slash xs @ dropWhile not_slash xs"
  "CHR ''/'' \<notin> set (takeWhile not_slash xs)"
  "dropWhile not_slash xs = c # t \<Longrightarrow> c = CHR ''/''"
proof -
  show "xs = takeWhile not_slash xs @ dropWhile not_slash xs" by simp
  show "CHR ''/'' \<notin> set (takeWhile not_slash xs)"
    using set_takeWhileD[of "CHR ''/''" not_slash xs] by (auto simp: not_slash_def)
  assume d: "dropWhile not_slash xs = c # t"
  then show "c = CHR ''/''"
    using hd_dropWhile[of not_slash xs] by (simp add: not_slash_def)
qed

lemma githubRegex_iff:
  "githubRegex u = Some (g1, g2) \<longleftrightarrow>
     g1 \<noteq> [] \<and> g2 \<noteq> [] \<and> CHR ''/'' \<notin> set g1 \<and> CHR ''/'' \<notin> set g2 \<and>
     (u = ''https://github.com/'' @ g1 @ ''/'' @ g2 \<or>
      u = ''https://github.com/'' @ g1 @ ''/'' @ g2 @ ''/'')"
  (is "?L \<longleftrightarrow> ?R")
proof
  assume ?R
  then have g: "g1 \<noteq> []" "g2 \<noteq> []" "CHR ''/'' \<notin> set g1" "CHR ''/'' \<notin> set g2"
    and u: "u = ''https://github.com/'' @ g1 @ ''/'' @ g2 \<or>
            u = ''https://github.com/'' @ g1 @ ''/'' @ g2 @ ''/''" by auto
  from u show ?L
  proof
    assume "u = ''https://github.com/'' @ g1 @ ''/'' @ g2"
    then have "strip_prefix ''https://github.com/'' u = Some (g1 @ CHR ''/'' # g2)"
      by (simp add: strip_prefix_iff)
    then show ?L using g
      by (simp add: githubRegex_def run_then_slash run_to_end)
  next
    assume "u = ''https://github.com/'' @ g1 @ ''/'' @ g2 @ ''/''"
    then have "strip_prefix ''https://github.com/'' u = Some (g1 @ CHR ''/'' # (g2 @ ''/''))" 
      by (simp add: strip_prefix_iff)
    moreover have "takeWhile not_slash (g2 @ ''/'') = g2" "dropWhile not_slash (g2 @ ''/'') = ''/''"
      using run_then_slash[OF g(4), of "[]"] by simp_all
    ultimately show ?L using g
      by (simp add: githubRegex_def run_then_slash)
  qed
next
  assume L: ?L
  then obtain rest where rest: "strip_prefix ''https://github.com/'' u = Some rest"
    by (auto simp: githubRegex_def split: option.splits)
  then have u: "u = ''https://github.com/'' @ rest" by (simp add: strip_prefix_iff)
  from L rest have g1: "takeWhile not_slash rest \<noteq> []"
    by (auto simp: githubRegex_def split: if_splits)
  with L rest obtain c rest2 where d1: "dropWhile not_slash rest = c # rest2"
    by (auto simp: githubRegex_def split: if_splits list.splits)
  with L rest g1 have g2: "takeWhile not_slash rest2 \<noteq> []"
    and tail: "dropWhile not_slash rest2 = [] \<or> dropWhile not_slash rest2 = ''/''"
    and res: "g1 = takeWhile not_slash rest" "g2 = takeWhile not_slash rest2"
    by (auto simp: githubRegex_def split: if_splits)
  have c: "c = CHR ''/''" using d1 by (rule split_run(3))
  have "rest = g1 @ CHR ''/'' # rest2" using split_run(1)[of rest] d1 c res by simp
  moreover have "rest2 = g2 @ dropWhile not_slash rest2" using split_run(1)[of rest2] res by simp
  ultimately have "rest = g1 @ ''/'' @ g2 @ dropWhile not_slash rest2" by simp
  with tail u have "u = ''https://github.com/'' @ g1 @ ''/'' @ g2 \<or>
      u = ''https://github.com/'' @ g1 @ ''/'' @ g2 @ ''/''" by auto
  moreover have "CHR ''/'' \<notin> set g1" "CHR ''/'' \<notin> set g2"
    unfolding res by (rule split_run(2))+
  ultimately show ?R using g1 g2 res by simp
qed

lemma strip_git_suffix: "strip_git (n @ ''.git'') = n"
  by (simp add: strip_git_def)

lemma strip_git_other: "(\<And>m. n \<noteq> m @ ''.git'') \<Longrightarrow> strip_git n = n"
proof -
  assume h: "\<And>m. n \<noteq> m @ ''.git''"
  show ?thesis
  proof (cases "4 \<le> length n \<and> drop (length n - 4) n = ''.git''")
    case True
    then have "n = take (length n - 4) n @ ''.git''" by (metis append_take_drop_id)
    with h show ?thesis by blast
  next
    case False
    then show ?thesis by (auto simp: strip_git_def)
  qed
qed

lemma parseGitHubUrl_iff:
  "parseGitHubUrl v = Some r \<longleftrightarrow>
     (\<exists>g1 g2. g1 \<noteq> [] \<and> g2 \<noteq> [] \<and> CHR ''/'' \<notin> set g1 \<and> CHR ''/'' \<notin> set g2 \<and>
        (v = JStr (''https://github.com/'' @ g1 @ ''/'' @ g2) \<or>
         v = JStr (''https://github.com/'' @ g1 @ ''/'' @ g2 @ ''/'')) \<and>
        r = \<lparr>owner = g1, repo = strip_git g2\<rparr>)"
proof (cases v)
  case (JStr u)
  have "parseGitHubUrl (JStr u) = Some r \<longleftrightarrow>
      (\<exists>g1 g2. githubRegex u = Some (g1, g2) \<and> r = \<lparr>owner = g1, repo = strip_git g2\<rparr>)"
    by (auto split: option.splits)
  then show ?thesis unfolding JStr githubRegex_iff by auto
qed simp_all

lemma serve_rejected:
  assumes "JSON_parse rt (req_body req) = Some b"
    and "get_prop (Some b) ''githubUrl'' = Inr (Some u)"
    and "parseGitHubUrl u = None"
  shows "snd (serve rt w req) = []"
    and "req_method req \<noteq> ''OPTIONS'' \<Longrightarrow> configured w \<Longrightarrow> code (fst (serve rt w req)) = 400"
  using assms
  by (auto simp: serve_def try_block_def bad_request_def configured_def split: option.splits)

text \<open>
  Claim C6, as the code has it. \<^verbatim>\<open>parseGitHubUrl\<close> accepts exactly the strings
  \<^verbatim>\<open>https://github.com/<owner>/<name>\<close>, with or without one slash at the end,
  in which owner and name are not empty and hold no slash: a further path segment is
  refused, a query string without a slash is part of the name. The name loses one
  \<^verbatim>\<open>.git\<close> at its end and is otherwise kept. When the locator of a request is
  refused the handler calls the fetcher not once, and answers with status 400 when it
  is configured.
\<close>

theorem parseGitHubUrl_accepts:
  "(parseGitHubUrl v = Some r \<longleftrightarrow>
     (\<exists>g1 g2. g1 \<noteq> [] \<and> g2 \<noteq> [] \<and> CHR ''/'' \<notin> set g1 \<and> CHR ''/'' \<notin> set g2 \<and>
        (v = JStr (''https://github.com/'' @ g1 @ ''/'' @ g2) \<or>
         v = JStr (''https://github.com/'' @ g1 @ ''/'' @ g2 @ ''/'')) \<and>
        r = \<lparr>owner = g1, repo = strip_git g2\<rparr>)) \<and>
   strip_git (n @ ''.git'') = n \<and>
   ((\<forall>m. n \<noteq> m @ ''.git'') \<longrightarrow> strip_git n = n) \<and>
   (JSON_parse rt (req_body req) = Some b \<and> get_prop (Some b) ''githubUrl'' = Inr (Some u) \<and>
    parseGitHubUrl u = None \<longrightarrow>
      snd (serve rt w req) = [] \<and>
      (req_method req \<noteq> ''OPTIONS'' \<and> configured w \<longrightarrow> code (fst (serve rt w req)) = 400))"
proof (intro conjI impI)
  show "parseGitHubUrl v = Some r \<longleftrightarrow>
     (\<exists>g1 g2. g1 \<noteq> [] \<and> g2 \<noteq> [] \<and> CHR ''/'' \<notin> set g1 \<and> CHR ''/'' \<notin> set g2 \<and>
        (v = JStr (''https://github.com/'' @ g1 @ ''/'' @ g2) \<or>
         v = JStr (''https://github.com/'' @ g1 @ ''/'' @ g2 @ ''/'')) \<and>
        r = \<lparr>owner = g1, repo = strip_git g2\<rparr>)"
    by (rule parseGitHubUrl_iff)
  show "strip_git (n @ ''.git'') = n" by (rule strip_git_suffix)
next
  assume "\<forall>m. n \<noteq> m @ ''.git''"
  then show "strip_git n = n" by (intro strip_git_other) simp
next
  assume h: "JSON_parse rt (req_body req) = Some b \<and>
    get_prop (Some b) ''githubUrl'' = Inr (Some u) \<and> parseGitHubUrl u = None"
  then show "snd (serve rt w req) = []" by (intro serve_rejected(1)[of rt req b u]) simp_all
  assume "req_method req \<noteq> ''OPTIONS'' \<and> configured w"
  with h show "code (fst (serve rt w req)) = 400"
    by (intro serve_rejected(2)[of rt req b u]) simp_all
qed

theorem parseGitHubUrl_accepts_witness:
  "parseGitHubUrl (JStr (''https://github.com/'' @ ''acme'' @ ''/'' @ ''widgets.git'' @ ''/''))
     = Some \<lparr>owner = ''acme'', repo = ''widgets''\<rparr> \<and>
   parseGitHubUrl (JStr ''not-a-url'') = None \<and>
   snd (serve example_runtime example_world \<lparr>req_method = ''POST'', req_body = bad_request_text\<rparr>) = [] \<and>
   code (fst (serve example_runtime example_world
     \<lparr>req_method = ''POST'', req_body = bad_request_text\<rparr>)) = 400"
proof -
  have 1: "parseGitHubUrl (JStr ''not-a-url'') = None"
    by (simp add: githubRegex_def strip_prefix_def)
  have 2: "JSON_parse example_runtime (req_body \<lparr>req_method = ''POST'', req_body = bad_request_text\<rparr>)
     = Some (JObj [(''githubUrl'', JStr ''not-a-url'')])"
    by (simp add: example_runtime_def example_parse_def bad_request_text_def request_text_def)
  have 3: "configured example_world" by (simp add: configured_def example_world_def)
  show ?thesis
    using 1 2 3
      parseGitHubUrl_accepts[of
        "JStr (''https://github.com/'' @ ''acme'' @ ''/'' @ ''widgets.git'' @ ''/'')"
        "\<lparr>owner = ''acme'', repo = ''widgets''\<rparr>" "''widgets''" example_runtime
        "\<lparr>req_method = ''POST'', req_body = bad_request_text\<rparr>"
        "JObj [(''githubUrl'', JStr ''not-a-url'')]" "JStr ''not-a-url''" example_world]
    by (simp add: githubRegex_def strip_prefix_def not_slash_def strip_git_def)
qed

theorem parseGitHubUrl_accepts_counterexample:
  "parseGitHubUrl (JStr ''https://github.com/acme/widgets?tab=readme'')
     = Some \<lparr>owner = ''acme'', repo = ''widgets?tab=readme''\<rparr>"
  by (simp add: githubRegex_def strip_prefix_def not_slash_def strip_git_def)

section \<open>Properties of the pipeline\<close>

lemma catch_return_Inr: "\<exists>v. catch_return d r = Inr v"
  by (cases r) (simp_all add: catch_return_def)

lemma fetchGitHubReadme_returns:
  "\<exists>v. fst (fetchGitHubReadme rt w owner' repo' token) = Inr v \<and>
       (\<not> fetched_ok w (readme_request owner' repo' token) \<longrightarrow> v = None)"
  by (auto simp: fetchGitHubReadme_def fetched_ok_def catch_return_def file_of_response_def
      split: prod.splits sum.splits)

lemma fetchGitHubFile_returns:
  "\<exists>v. fst (fetchGitHubFile rt w owner' repo' path' token) = Inr v \<and>
       (\<not> fetched_ok w (file_request owner' repo' path' token) \<longrightarrow> v = None)"
  by (auto simp: fetchGitHubFile_def fetched_ok_def catch_return_def file_of_response_def
      split: prod.splits sum.splits)

lemma fetchGitHubCommits_returns:
  "\<exists>v. fst (fetchGitHubCommits rt w owner' repo' token) = Inr v \<and>
       (\<not> fetched_ok w (commits_request owner' repo' token) \<longrightarrow> v = [])"
  by (auto simp: fetchGitHubCommits_def fetched_ok_def catch_return_def commits_of_response_def
      split: prod.splits sum.splits)

lemma gather_returns:
  "\<exists>d. gather rt w loc pat = Inr d \<and>
      (\<not> fetched_ok w (readme_request (owner loc) (repo loc) pat) \<longrightarrow> readme d = None) \<and>
      (\<not> fetched_ok w (file_request (owner loc) (repo loc) ''package.json'' pat) \<longrightarrow> files d = []) \<and>
      (\<not> fetched_ok w (commits_request (owner loc) (repo loc) pat) \<longrightarrow> commits d = [])"
proof -
  obtain r where r: "fst (fetchGitHubReadme rt w (owner loc) (repo loc) pat) = Inr r"
    "\<not> fetched_ok w (readme_request (owner loc) (repo loc) pat) \<longrightarrow> r = None"
    using fetchGitHubReadme_returns by blast
  obtain f where f: "fst (fetchGitHubFile rt w (owner loc) (repo loc) ''package.json'' pat) = Inr f"
    "\<not> fetched_ok w (file_request (owner loc) (repo loc) ''package.json'' pat) \<longrightarrow> f = None"
    using fetchGitHubFile_returns by blast
  obtain c where c: "fst (fetchGitHubCommits rt w (owner loc) (repo loc) pat) = Inr c"
    "\<not> fetched_ok w (commits_request (owner loc) (repo loc) pat) \<longrightarrow> c = []"
    using fetchGitHubCommits_returns by blast
  have "gather rt w loc pat = Inr \<lparr>readme = r, files = package_files f, commits = c\<rparr>"
    by (simp add: gather_def r(1) f(1) c(1))
  then show ?thesis using r(2) f(2) c(2) by (auto simp: package_files_def)
qed


lemma parsed_url_truthy: "parseGitHubUrl v = Some loc \<Longrightarrow> truthy (Some v)"
  by (auto simp: parseGitHubUrl_iff)

lemma parsed_url_string: "parseGitHubUrl v = Some loc \<Longrightarrow> \<exists>u. v = JStr u"
  by (auto simp: parseGitHubUrl_iff)

text \<open>The handler, once the configuration, the body and the locator are in order.\<close>
lemma serve_analyse:
  assumes "req_method req \<noteq> ''OPTIONS''"
    and "env_get w ''OPENAI_API_KEY'' = Some key" "key \<noteq> []"
    and "env_get w ''GITHUB_PAT'' = Some pat" "pat \<noteq> []"
    and "JSON_parse rt (req_body req) = Some b"
    and "get_prop (Some b) ''githubUrl'' = Inr (Some (JStr u))"
    and "parseGitHubUrl (JStr u) = Some loc"
  shows "serve rt w req =
     (case analyse rt w key pat u loc of
        (Inl e, calls) \<Rightarrow>
          (\<lparr>code = 500, reply_body = ErrorJson ''Internal server error'' (Some e)\<rparr>, calls)
      | (Inr r, calls) \<Rightarrow> (r, calls))"
  using assms parsed_url_truthy[OF assms(8)]
  by (simp add: serve_def try_block_def)

lemma analyse_gathered:
  assumes "gather rt w loc pat = Inr d"
  shows "analyse rt w key pat u loc =
     (inference_stage rt
        (fst (fetchWithExponentialBackoff w (openai_request key (createDetailedAnalysisPrompt rt u d)) 3 1000)),
      gather_calls rt w loc pat @
        [(openai_request key (createDetailedAnalysisPrompt rt u d),
          snd (fetchWithExponentialBackoff w (openai_request key (createDetailedAnalysisPrompt rt u d)) 3 1000))])"
  using assms by (simp add: analyse_def split: prod.splits)

lemma inference_stage_failed:
  "inference_failed w q \<Longrightarrow> \<exists>e. inference_stage rt (fst (fetchWithExponentialBackoff w q 3 1000)) = Inl e"
  by (auto simp: inference_failed_def inference_stage_def split: sum.splits)






lemma fetch_loop_result:
  "0 \<le> attempt \<Longrightarrow> attempt \<le> maxRetries \<Longrightarrow>
   \<exists>k. fst (fetch_loop w req maxRetries initialDelay attempt lastError) = last_outcome (fetch w req k)"
proof (induction w req maxRetries initialDelay attempt lastError rule: fetch_loop.induct)
  case (1 w req maxRetries initialDelay attempt lastError)
  show ?case
  proof (cases "fetch w req (nat attempt)")
    case (Responds r)
    show ?thesis
    proof (cases "\<not> (ok r \<or> (400 \<le> status r \<and> status r < 500 \<and> status r \<noteq> 429)) \<and>
                  (status r = 429 \<or> 500 \<le> status r) \<and> attempt \<noteq> maxRetries")
      case True
      then have lt: "attempt + 1 \<le> maxRetries" using 1(4) by simp
      from True have nonterm: "\<not> (ok r \<or> (400 \<le> status r \<and> status r < 500 \<and> status r \<noteq> 429))"
        and st: "status r = 429 \<or> 500 \<le> status r" and ne: "attempt \<noteq> maxRetries" by blast+
      have "\<exists>k. fst (fetch_loop w req maxRetries initialDelay (attempt + 1) lastError)
            = last_outcome (fetch w req k)"
        using 1(1)[OF 1(4) Responds nonterm st ne _ lt] 1(3) by simp
      moreover have "fst (fetch_loop w req maxRetries initialDelay attempt lastError) =
          fst (fetch_loop w req maxRetries initialDelay (attempt + 1) lastError)"
        using Responds nonterm st ne 1(4)
        by (subst fetch_loop.simps) (auto simp: fst_after)
      ultimately show ?thesis by simp
    next
      case False
      then have "fst (fetch_loop w req maxRetries initialDelay attempt lastError)
          = last_outcome (fetch w req (nat attempt))"
        using Responds 1(4) by (subst fetch_loop.simps) (auto simp: last_outcome_def)
      then show ?thesis by blast
    qed
  next
    case (Rejects msg)
    show ?thesis
    proof (cases "attempt = maxRetries")
      case True
      then have "fst (fetch_loop w req maxRetries initialDelay attempt lastError)
          = last_outcome (fetch w req (nat attempt))"
        using Rejects 1(4) by (subst fetch_loop.simps) (auto simp: last_outcome_def)
      then show ?thesis by blast
    next
      case False
      then have lt: "attempt + 1 \<le> maxRetries" using 1(4) by simp
      have "\<exists>k. fst (fetch_loop w req maxRetries initialDelay (attempt + 1) (Some (FetchFailed msg)))
            = last_outcome (fetch w req k)"
        using 1(2)[OF 1(4) Rejects False _ lt] 1(3) by simp
      then show ?thesis using Rejects False 1(4)
        by (subst fetch_loop.simps) (simp add: fst_after)
    qed
  qed
qed

lemma all_failing_inference_failed:
  assumes "\<forall>k. failing (fetch w q k)"
  shows "inference_failed w q"
proof -
  obtain k where "fst (fetchWithExponentialBackoff w q 3 1000) = last_outcome (fetch w q k)"
    using fetch_loop_result[of 0 3 w q 1000 None] by (auto simp: fetchWithExponentialBackoff_def)
  moreover have "failing (fetch w q k)" using assms by blast
  ultimately show ?thesis
    by (auto simp: inference_failed_def failing_def last_outcome_def split: fetch_outcome.splits)
qed

lemma openai_request_url: "url (openai_request k p) = ''https://api.openai.com/v1/chat/completions''"
  by (simp add: openai_request_def)

lemma analyse_inference_failed:
  assumes "\<forall>q. url q = ''https://api.openai.com/v1/chat/completions'' \<longrightarrow> inference_failed w q"
  shows "\<exists>e calls. analyse rt w key pat u loc = (Inl e, calls) \<and> length calls = 4"
proof -
  obtain d where d: "gather rt w loc pat = Inr d" using gather_returns[of rt w loc pat] by blast
  have "inference_failed w (openai_request key (createDetailedAnalysisPrompt rt u d))"
    using assms by (simp add: openai_request_url)
  then obtain e where "inference_stage rt (fst (fetchWithExponentialBackoff w
      (openai_request key (createDetailedAnalysisPrompt rt u d)) 3 1000)) = Inl e"
    using inference_stage_failed by blast
  then show ?thesis by (simp add: analyse_gathered[OF d] gather_calls_def)
qed

lemma try_block_cases:
  "(\<exists>e. try_block rt w req = (Inl e, [])) \<or>
   try_block rt w req = (Inr (bad_request ''GitHub URL is required''), []) \<or>
   try_block rt w req = (Inr (bad_request ''Invalid GitHub URL format''), []) \<or>
   (\<exists>key pat u loc. try_block rt w req = analyse rt w key pat u loc)"
  unfolding try_block_def
  by (simp split: option.splits sum.splits) blast

text \<open>The example, evaluated.\<close>

lemma example_parse_values:
  "example_parse request_text = Some (JObj [(''githubUrl'', JStr ''https://github.com/acme/widgets'')])"
  "example_parse commits_text = Some (JArr
          [JObj [(''commit'', JObj
             [(''message'', JStr ''first draft''),
              (''author'', JObj [(''name'', JStr ''ann''), (''date'', JStr ''2025-06-01'')])])]] [])"
  "example_parse completion_text = Some completion_value"
  "example_parse openai_text = Some (JObj [(''choices'', JArr
          [JObj [(''message'', JObj [(''content'', JStr completion_text)])]] [])])"
  "example_parse ''{\"message\":\"Not Found\"}'' = None"
  by (simp_all add: example_parse_def request_text_def bad_request_text_def commits_text_def
      completion_text_def openai_text_def json_string_def)

lemma example_locator:
  "parseGitHubUrl (JStr ''https://github.com/acme/widgets'') = Some \<lparr>owner = ''acme'', repo = ''widgets''\<rparr>"
  by (simp add: githubRegex_def strip_prefix_def not_slash_def strip_git_def)





lemma example_prompt:
  \<open>createDetailedAnalysisPrompt example_runtime ''https://github.com/acme/widgets''
     \<lparr>readme = None, files = [],
      commits = [\<lparr>message = Some (JStr ''first draft''), author = Some (JStr ''ann''),
                  date = Some (JStr ''2025-06-01'')\<rparr>]\<rparr> =
   ''Analyze this GitHub repository for AI development patterns: '' @
   ''https://github.com/acme/widgets\<newline>\<newline>'' @
   ''No README file found.\<newline>\<newline>'' @
   ''No package.json or key files found.\<newline>\<newline>'' @
   ''Recent Commit Messages (last 1 commits):\<newline>'' @
   ''- "first draft" by ann on 2025-06-01\<newline>\<newline>'' @ rubric\<close>
  by (simp add: createDetailedAnalysisPrompt_def add_readme_def add_files_def add_commits_def
      add_commit_def show_nat.simps)



text \<open>
  Claim C8. When the fetcher ends every inference request with an exception or with a
  response that is not \<^verbatim>\<open>ok\<close> (as it does when every attempt fails, with status
  500 say, or when an attempt fails with a status that is not retried), the handler
  never answers with an analysis result: the body is an error object and the status is
  400 or 500. For a configured handler and a request with a valid locator the status is
  500, the body is the error object of the \<^verbatim>\<open>catch\<close>, and all four calls of the
  fetcher were made.
\<close>

theorem inference_failure_is_fatal:
  "req_method req \<noteq> ''OPTIONS'' \<Longrightarrow>
   \<forall>q. url q = ''https://api.openai.com/v1/chat/completions'' \<longrightarrow> inference_failed w q \<Longrightarrow>
   (\<exists>msg e. reply_body (fst (serve rt w req)) = ErrorJson msg e) \<and>
   (code (fst (serve rt w req)) = 400 \<or> code (fst (serve rt w req)) = 500) \<and>
   (configured w \<and> JSON_parse rt (req_body req) = Some b \<and>
    get_prop (Some b) ''githubUrl'' = Inr (Some u) \<and> parseGitHubUrl u = Some loc \<longrightarrow>
      code (fst (serve rt w req)) = 500 \<and>
      (\<exists>e. reply_body (fst (serve rt w req)) = ErrorJson ''Internal server error'' (Some e)) \<and>
      length (snd (serve rt w req)) = 4) \<and>
   ((\<forall>k. failing (fetch w q' k)) \<longrightarrow> inference_failed w q')"
proof -
  assume m: "req_method req \<noteq> ''OPTIONS''"
    and f: "\<forall>q. url q = ''https://api.openai.com/v1/chat/completions'' \<longrightarrow> inference_failed w q"
  have an: "\<exists>e calls. analyse rt w key pat u' loc' = (Inl e, calls) \<and> length calls = 4"
    for key pat u' loc'
    using f by (rule analyse_inference_failed)
  have tb: "(\<exists>e calls. try_block rt w req = (Inl e, calls)) \<or>
       (\<exists>msg. try_block rt w req = (Inr (bad_request msg), []))"
    using try_block_cases[of rt w req] an by metis
  have 1: "\<exists>msg e. reply_body (fst (serve rt w req)) = ErrorJson msg e"
    using tb m by (auto simp: serve_def bad_request_def)
  have 2: "code (fst (serve rt w req)) = 400 \<or> code (fst (serve rt w req)) = 500"
    using tb m by (auto simp: serve_def bad_request_def)
  have 3: "code (fst (serve rt w req)) = 500 \<and>
      (\<exists>e. reply_body (fst (serve rt w req)) = ErrorJson ''Internal server error'' (Some e)) \<and>
      length (snd (serve rt w req)) = 4"
    if h: "configured w \<and> JSON_parse rt (req_body req) = Some b \<and>
        get_prop (Some b) ''githubUrl'' = Inr (Some u) \<and> parseGitHubUrl u = Some loc"
  proof -
    from h obtain key pat where k: "env_get w ''OPENAI_API_KEY'' = Some key" "key \<noteq> []"
      "env_get w ''GITHUB_PAT'' = Some pat" "pat \<noteq> []"
      by (auto simp: configured_def split: option.splits)
    from h obtain us where us: "u = JStr us" using parsed_url_string by blast
    have s: "serve rt w req =
     (case analyse rt w key pat us loc of
        (Inl e, calls) \<Rightarrow>
          (\<lparr>code = 500, reply_body = ErrorJson ''Internal server error'' (Some e)\<rparr>, calls)
      | (Inr r, calls) \<Rightarrow> (r, calls))"
      using m k h us by (intro serve_analyse[of req w key pat rt b us loc]) simp_all
    obtain e calls where "analyse rt w key pat us loc = (Inl e, calls)" "length calls = 4"
      using an by blast
    then show ?thesis by (simp add: s)
  qed
  have 4: "(\<forall>k. failing (fetch w q' k)) \<longrightarrow> inference_failed w q'"
    using all_failing_inference_failed by blast
  from 1 2 3 4 show ?thesis by blast
qed

lemma always_500_failed: "inference_failed (world_always 500) q"
  by (rule all_failing_inference_failed) (simp add: world_always_def failing_def ok_def)

theorem inference_failure_is_fatal_witness:
  "code (fst (serve example_runtime (world_always 500)
      \<lparr>req_method = ''POST'', req_body = request_text\<rparr>)) = 500 \<and>
   (\<exists>e. reply_body (fst (serve example_runtime (world_always 500)
      \<lparr>req_method = ''POST'', req_body = request_text\<rparr>)) = ErrorJson ''Internal server error'' (Some e)) \<and>
   inference_failed (world_always 500) (openai_request ''secret'' [])"
proof -
  have body: "JSON_parse example_runtime (req_body \<lparr>req_method = ''POST'', req_body = request_text\<rparr>)
     = Some (JObj [(''githubUrl'', JStr ''https://github.com/acme/widgets'')])"
    by (simp add: example_runtime_def example_parse_values)
  have conf: "configured (world_always 500)" by (simp add: configured_def world_always_def)
  have fail: "\<forall>q. url q = ''https://api.openai.com/v1/chat/completions'' \<longrightarrow>
      inference_failed (world_always 500) q"
    by (simp add: always_500_failed)
  have m: "req_method \<lparr>req_method = ''POST'', req_body = request_text\<rparr> \<noteq> ''OPTIONS''" by simp
  show ?thesis
    using inference_failure_is_fatal[OF m fail, of example_runtime
        "JObj [(''githubUrl'', JStr ''https://github.com/acme/widgets'')]"
        "JStr ''https://github.com/acme/widgets''" "\<lparr>owner = ''acme'', repo = ''widgets''\<rparr>"
        "openai_request ''secret'' []"]
      body conf example_locator always_500_failed
    by simp
qed

text \<open>
  Claim C9. The prompt that a run submits to the inference service is
  \<^verbatim>\<open>createDetailedAnalysisPrompt\<close> of the URL and the gathered data, and nothing
  else: two runs in different worlds (other responses, other waits, other draws of
  \<^verbatim>\<open>Math.random()\<close>, other tokens for the hosting service) that gather the same
  data for the same URL submit the same request.
\<close>

theorem prompt_deterministic:
  "gather rt w1 loc pat1 = Inr d \<Longrightarrow> gather rt w2 loc pat2 = Inr d \<Longrightarrow>
   fst (last (snd (analyse rt w1 key pat1 u loc))) =
     openai_request key (createDetailedAnalysisPrompt rt u d) \<and>
   fst (last (snd (analyse rt w2 key pat2 u loc))) =
     openai_request key (createDetailedAnalysisPrompt rt u d)"
  by (simp add: analyse_gathered)

lemma gather_always_404:
  "gather example_runtime (world_always 404) \<lparr>owner = ''acme'', repo = ''widgets''\<rparr> ''secret'' =
     Inr \<lparr>readme = None, files = [], commits = []\<rparr>"
  by (simp add: gather_def fetchGitHubReadme_def fetchGitHubFile_def fetchGitHubCommits_def
      fetchWithExponentialBackoff_def fetch_loop.simps world_always_def ok_def catch_return_def
      file_of_response_def commits_of_response_def package_files_def)

lemma gather_always_500:
  "gather example_runtime (world_always 500) \<lparr>owner = ''acme'', repo = ''widgets''\<rparr> ''other'' =
     Inr \<lparr>readme = None, files = [], commits = []\<rparr>"
  by (simp add: gather_def fetchGitHubReadme_def fetchGitHubFile_def fetchGitHubCommits_def
      fetchWithExponentialBackoff_def fetch_loop.simps world_always_def ok_def catch_return_def
      file_of_response_def commits_of_response_def package_files_def)

theorem prompt_deterministic_witness:
  "fst (last (snd (analyse example_runtime (world_always 404) ''key'' ''secret''
       ''https://github.com/acme/widgets'' \<lparr>owner = ''acme'', repo = ''widgets''\<rparr>))) =
   fst (last (snd (analyse example_runtime (world_always 500) ''key'' ''other''
       ''https://github.com/acme/widgets'' \<lparr>owner = ''acme'', repo = ''widgets''\<rparr>)))"
  using prompt_deterministic[OF gather_always_404 gather_always_500, of "''key''"
      "''https://github.com/acme/widgets''"]
  by simp

end
